theory Spec2Isabelle
  imports Main "HOL-Library.Word"
begin

unbundle bit_operations_syntax

section \<open>OpenGL scalar types and enumerants\<close>

text \<open>
  The scalar types of the host API are 32 bits wide. \<open>GLint\<close> and \<open>GLsizei\<close> are
  two's complement values and are read with \<open>sint\<close>; \<open>GLfloat\<close> is the IEEE 754 binary32
  bit pattern of the value, so that copying a float is copying its bits and comparing two
  floats is the comparison \<open>float_ne\<close> below.
\<close>

type_synonym GLuint = "32 word"
type_synonym GLint = "32 word"
type_synonym GLsizei = "32 word"
type_synonym GLenum = "32 word"
type_synonym GLfloat = "32 word"
type_synonym u32 = "32 word"

definition is_nan :: "GLfloat \<Rightarrow> bool" where
  "is_nan f = (f AND 0x7F800000 = 0x7F800000 \<and> f AND 0x007FFFFF \<noteq> 0)"

definition is_zero :: "GLfloat \<Rightarrow> bool" where
  "is_zero f = (f AND 0x7FFFFFFF = 0)"

text \<open>The operator \<open>!=\<close> of C++ on two floats: a NaN differs from everything, itself
  included, and the two zeros are equal.\<close>

definition float_ne :: "GLfloat \<Rightarrow> GLfloat \<Rightarrow> bool" where
  "float_ne a b = (is_nan a \<or> is_nan b \<or> (a \<noteq> b \<and> \<not> (is_zero a \<and> is_zero b)))"

text \<open>\<open>std::max\<close> on two \<open>GLint\<close>: \<open>(a < b) ? b : a\<close>, compared as signed values.\<close>

definition std_max :: "GLint \<Rightarrow> GLint \<Rightarrow> GLint" where
  "std_max a b = (if sint a < sint b then b else a)"

text \<open>The enumerants of the OpenGL registry that the state tracker passes.\<close>

definition GL_READ_FRAMEBUFFER :: GLenum where "GL_READ_FRAMEBUFFER = 0x8CA8"
definition GL_DRAW_FRAMEBUFFER :: GLenum where "GL_DRAW_FRAMEBUFFER = 0x8CA9"
definition GL_CLIP_DISTANCE0 :: GLenum where "GL_CLIP_DISTANCE0 = 0x3000"
definition GL_CLAMP_FRAGMENT_COLOR_ARB :: GLenum where "GL_CLAMP_FRAGMENT_COLOR_ARB = 0x891B"
definition GL_SAMPLE_ALPHA_TO_COVERAGE :: GLenum where "GL_SAMPLE_ALPHA_TO_COVERAGE = 0x809E"
definition GL_SAMPLE_ALPHA_TO_ONE :: GLenum where "GL_SAMPLE_ALPHA_TO_ONE = 0x809F"
definition GL_RASTERIZER_DISCARD :: GLenum where "GL_RASTERIZER_DISCARD = 0x8C89"
definition GL_STENCIL_TEST :: GLenum where "GL_STENCIL_TEST = 0x0B90"
definition GL_SCISSOR_TEST :: GLenum where "GL_SCISSOR_TEST = 0x0C11"
definition GL_BLEND :: GLenum where "GL_BLEND = 0x0BE2"
definition GL_FRONT :: GLenum where "GL_FRONT = 0x0404"
definition GL_BACK :: GLenum where "GL_BACK = 0x0405"
definition GL_RENDERBUFFER :: GLenum where "GL_RENDERBUFFER = 0x8D41"
definition GL_TRUE :: GLenum where "GL_TRUE = 1"
definition GL_FALSE :: GLenum where "GL_FALSE = 0"

section \<open>The driver calls\<close>

text \<open>
  One constructor for each entry point of the host API that \<open>gl_state.cpp\<close> calls, with
  the arguments it passes. \<open>glViewportIndexedf\<close> carries the four integers that the code
  converts to \<open>GLfloat\<close>; \<open>glBindImageTextures\<close> carries, after the first unit and the
  count, the handles that the driver reads through the pointer it is given.
\<close>

datatype gl_call =
    glBindFramebuffer GLenum GLuint
  | glUseProgram GLuint
  | glBindProgramPipeline GLuint
  | glEnable GLenum
  | glDisable GLenum
  | glEnablei GLenum GLuint
  | glDisablei GLenum GLuint
  | glClampColor GLenum GLenum
  | glColorMaski GLuint bool bool bool bool
  | glStencilFuncSeparate GLenum GLenum GLint GLuint
  | glStencilOpSeparate GLenum GLenum GLenum GLenum
  | glStencilMaskSeparate GLenum GLuint
  | glViewportIndexedf GLuint GLint GLint GLint GLint
  | glDepthRangeIndexed GLuint GLfloat GLfloat
  | glScissorIndexed GLuint GLint GLint GLsizei GLsizei
  | glBlendFuncSeparate GLenum GLenum GLenum GLenum
  | glBlendEquationSeparate GLenum GLenum
  | glBlendFuncSeparatei GLuint GLenum GLenum GLenum GLenum
  | glBlendEquationSeparatei GLuint GLenum GLenum
  | glClipControl GLenum GLenum
  | glBindRenderbuffer GLenum GLuint
  | glBindTextureUnit GLuint GLuint
  | glBindSampler GLuint GLuint
  | glBindImageTextures GLuint GLsizei "GLuint list"

section \<open>The pipeline state value\<close>

text \<open>
  Modelled from the spec: the declaration of \<open>OpenGLState\<close> (\<open>gl_state.h\<close>) is not among
  the sources. The records below have the fields that section 3 of the specification lists
  and that \<open>gl_state.cpp\<close> reads and writes, under the names the code uses, with the types of
  the OpenGL parameters they are passed as: handles are \<open>GLuint\<close>, enumerants \<open>GLenum\<close>,
  rectangles \<open>GLint\<close> and \<open>GLsizei\<close>, the two depth-range values floats (the specification
  gives them as 0.0 and 1.0). The fixed-size arrays are lists; their sizes are constants of
  headers that are not among the sources either, so they are parameters (\<open>Sizes\<close>), and
  \<open>wf_state\<close> says that a state value has arrays of these sizes, as the C++ type guarantees,
  that slot 0 of the render targets and of the viewports exists (the code indexes it), and
  that a size fits the \<open>GLuint\<close> and \<open>GLsizei\<close> the code casts indices and counts to.
\<close>

record Draw =
  read_framebuffer :: GLuint
  draw_framebuffer :: GLuint
  shader_program :: GLuint
  program_pipeline :: GLuint

record FragmentColorClamp =
  enabled :: bool

record MultisampleControl =
  alpha_to_coverage :: bool
  alpha_to_one :: bool

record ColorMask =
  red_enabled :: bool
  green_enabled :: bool
  blue_enabled :: bool
  alpha_enabled :: bool

record StencilFace =
  test_func :: GLenum
  test_ref :: GLint
  test_mask :: GLuint
  write_mask :: GLuint
  action_stencil_fail :: GLenum
  action_depth_fail :: GLenum
  action_depth_pass :: GLenum

text \<open>The field \<open>back\<close> of the source is \<open>back_face\<close> here (\<open>back\<close> is a keyword).\<close>

record Stencil =
  test_enabled :: bool
  front :: StencilFace
  back_face :: StencilFace

record Blend =
  enabled :: bool
  rgb_equation :: GLenum
  a_equation :: GLenum
  src_rgb_func :: GLenum
  dst_rgb_func :: GLenum
  src_a_func :: GLenum
  dst_a_func :: GLenum

record IndependantBlend =
  enabled :: bool

record Scissor =
  enabled :: bool
  x :: GLint
  y :: GLint
  width :: GLsizei
  height :: GLsizei

record Viewport =
  x :: GLint
  y :: GLint
  width :: GLint
  height :: GLint
  depth_range_near :: GLfloat
  depth_range_far :: GLfloat
  scissor :: Scissor

record ClipControl =
  origin :: GLenum
  depth_mode :: GLenum

record OpenGLState =
  draw :: Draw
  clip_distance :: "bool list"
  fragment_color_clamp :: FragmentColorClamp
  multisample_control :: MultisampleControl
  rasterizer_discard :: bool
  color_mask :: "ColorMask list"
  viewports :: "Viewport list"
  stencil :: Stencil
  blend :: "Blend list"
  independant_blend :: IndependantBlend
  textures :: "GLuint list"
  samplers :: "GLuint list"
  images :: "GLuint list"
  clip_control :: ClipControl
  renderbuffer :: GLuint

record Sizes =
  NumRenderTargets :: nat
  NumViewports :: nat
  NumClipDistances :: nat
  NumSamplers :: nat
  NumImages :: nat

definition wf_state :: "Sizes \<Rightarrow> OpenGLState \<Rightarrow> bool" where
  "wf_state Z s = (0 < NumRenderTargets Z \<and> 0 < NumViewports Z \<and>
     NumRenderTargets Z < 2 ^ 31 \<and> NumViewports Z < 2 ^ 31 \<and> NumClipDistances Z < 2 ^ 31 \<and>
     NumSamplers Z < 2 ^ 31 \<and> NumImages Z < 2 ^ 31 \<and>
     length (color_mask s) = NumRenderTargets Z \<and>
     length (blend s) = NumRenderTargets Z \<and>
     length (viewports s) = NumViewports Z \<and>
     length (clip_distance s) = NumClipDistances Z \<and>
     length (textures s) = NumSamplers Z \<and>
     length (samplers s) = NumSamplers Z \<and>
     length (images s) = NumImages Z)"

text \<open>
  The graphics context as the state tracker sees it: the process-wide applied state
  \<open>cur_state\<close> and the driver calls issued so far, oldest first.
\<close>

record gl_context =
  cur_state :: OpenGLState
  calls :: "gl_call list"

definition emit :: "gl_call list \<Rightarrow> gl_context \<Rightarrow> gl_context" where
  "emit cs w = w\<lparr>calls := calls w @ cs\<rparr>"


text \<open>
  What \<open>ApplyViewport\<close> establishes between a slot of \<open>cur_state\<close> and the desired slot:
  the integer fields and the scissor are equal; a depth-range value is stored when the
  float comparison \<open>!=\<close> says it differs, so afterwards it either has the desired bits or
  compares equal to the desired value (a zero of the other sign).
\<close>

definition float_same :: "GLfloat \<Rightarrow> GLfloat \<Rightarrow> bool" where
  "float_same a b = (a = b \<or> \<not> float_ne a b)"

definition viewport_applied :: "Viewport \<Rightarrow> Viewport \<Rightarrow> bool" where
  "viewport_applied current updated =
     (Viewport.x current = Viewport.x updated \<and> Viewport.y current = Viewport.y updated \<and>
      Viewport.width current = Viewport.width updated \<and>
      Viewport.height current = Viewport.height updated \<and>
      scissor current = scissor updated \<and>
      float_same (depth_range_near current) (depth_range_near updated) \<and>
      float_same (depth_range_far current) (depth_range_far updated))"

section \<open>The helpers of the anonymous namespace\<close>

text \<open>\<open>UpdateValue\<close> and \<open>UpdateTie\<close> store the new value and say whether it differs from
  the old one: the result is the stored value and the flag.\<close>

definition UpdateValue :: "'a \<Rightarrow> 'a \<Rightarrow> 'a \<times> bool" where
  "UpdateValue current_value new_value = (new_value, current_value \<noteq> new_value)"

definition UpdateTie :: "'a \<Rightarrow> 'a \<Rightarrow> 'a \<times> bool" where
  "UpdateTie current_value new_value = (new_value, current_value \<noteq> new_value)"

text \<open>
  \<open>UpdateArray\<close>: one pass over the array, every slot stored, \<open>first\<close> and \<open>last\<close> the
  first and the last index whose value changed. The source leaves \<open>last\<close>
  (\<open>last_index\<close> here) uninitialised and reads it only after \<open>first\<close> was set; here it
  starts at 0.
\<close>

definition UpdateArray_step ::
  "'a list \<Rightarrow> nat \<Rightarrow> 'a list \<times> nat option \<times> nat \<Rightarrow> 'a list \<times> nat option \<times> nat" where
  "UpdateArray_step new_values i st =
     (case st of (current_values, first, last_index) \<Rightarrow>
        (case UpdateValue (current_values ! i) (new_values ! i) of (v, changed) \<Rightarrow>
           if \<not> changed then (current_values[i := v], first, last_index)
           else (current_values[i := v], (if first = None then Some i else first), i)))"

definition UpdateArray :: "'a list \<Rightarrow> 'a list \<Rightarrow> 'a list \<times> (GLuint \<times> GLsizei) option" where
  "UpdateArray current_values new_values =
     (case fold (UpdateArray_step new_values) [0..<length current_values] (current_values, None, 0) of
        (current_values', first, last_index) \<Rightarrow>
          (case first of
             None \<Rightarrow> (current_values', None)
           | Some f \<Rightarrow> (current_values', Some (of_nat f, of_nat (last_index - f + 1)))))"

text \<open>The four overloads of \<open>Enable\<close>. The two that take the cached flag return its new
  value with the calls they issue.\<close>

definition Enable_cap :: "GLenum \<Rightarrow> bool \<Rightarrow> gl_call list" where
  "Enable_cap cap enable = (if enable then [glEnable cap] else [glDisable cap])"

definition Enable_index :: "GLenum \<Rightarrow> GLuint \<Rightarrow> bool \<Rightarrow> gl_call list" where
  "Enable_index cap index enable = (if enable then [glEnablei cap index] else [glDisablei cap index])"

definition Enable_cap_value :: "GLenum \<Rightarrow> bool \<Rightarrow> bool \<Rightarrow> bool \<times> gl_call list" where
  "Enable_cap_value cap current_value new_value =
     (case UpdateValue current_value new_value of (v, changed) \<Rightarrow>
        (v, if changed then Enable_cap cap new_value else []))"

definition Enable_index_value :: "GLenum \<Rightarrow> GLuint \<Rightarrow> bool \<Rightarrow> bool \<Rightarrow> bool \<times> gl_call list" where
  "Enable_index_value cap index current_value new_value =
     (case UpdateValue current_value new_value of (v, changed) \<Rightarrow>
        (v, if changed then Enable_index cap index new_value else []))"

text \<open>
  A loop \<open>for (i = 0; i < n; ++i)\<close> whose body works on slot \<open>i\<close> of an array of
  \<open>cur_state\<close> (\<open>current\<close>) and on slot \<open>i\<close> of the same array of the desired state
  (\<open>updated\<close>): the body returns the new value of the slot and the calls it issues.
\<close>

definition for_slots ::
  "nat \<Rightarrow> (nat \<Rightarrow> 'a \<Rightarrow> 'a \<Rightarrow> 'a \<times> gl_call list) \<Rightarrow> 'a list \<Rightarrow> 'a list \<Rightarrow> 'a list \<times> gl_call list" where
  "for_slots n body current updated =
     fold (\<lambda>i (cur, out). case body i (cur ! i) (updated ! i) of (c, cs) \<Rightarrow> (cur[i := c], out @ cs))
       [0..<n] (current, [])"

section \<open>Applying one category of state\<close>

text \<open>Each function takes the desired state (\<open>this\<close> in the source) and the context, and
  returns the context with \<open>cur_state\<close> updated and the calls appended.\<close>

definition ApplyFramebufferState :: "OpenGLState \<Rightarrow> gl_context \<Rightarrow> gl_context" where
  "ApplyFramebufferState this w =
     (let c = cur_state w;
          (r, r_changed) = UpdateValue (read_framebuffer (draw c)) (read_framebuffer (draw this));
          (d, d_changed) = UpdateValue (draw_framebuffer (draw c)) (draw_framebuffer (draw this))
      in emit ((if r_changed then [glBindFramebuffer GL_READ_FRAMEBUFFER (read_framebuffer (draw this))] else []) @
               (if d_changed then [glBindFramebuffer GL_DRAW_FRAMEBUFFER (draw_framebuffer (draw this))] else []))
           (w\<lparr>cur_state := c\<lparr>draw := (draw c)\<lparr>read_framebuffer := r, draw_framebuffer := d\<rparr>\<rparr>\<rparr>))"

definition ApplyShaderProgram :: "OpenGLState \<Rightarrow> gl_context \<Rightarrow> gl_context" where
  "ApplyShaderProgram this w =
     (let c = cur_state w;
          (p, changed) = UpdateValue (shader_program (draw c)) (shader_program (draw this))
      in emit (if changed then [glUseProgram (shader_program (draw this))] else [])
           (w\<lparr>cur_state := c\<lparr>draw := (draw c)\<lparr>shader_program := p\<rparr>\<rparr>\<rparr>))"

definition ApplyProgramPipeline :: "OpenGLState \<Rightarrow> gl_context \<Rightarrow> gl_context" where
  "ApplyProgramPipeline this w =
     (let c = cur_state w;
          (p, changed) = UpdateValue (program_pipeline (draw c)) (program_pipeline (draw this))
      in emit (if changed then [glBindProgramPipeline (program_pipeline (draw this))] else [])
           (w\<lparr>cur_state := c\<lparr>draw := (draw c)\<lparr>program_pipeline := p\<rparr>\<rparr>\<rparr>))"

definition ClipDistanceSlot :: "nat \<Rightarrow> bool \<Rightarrow> bool \<Rightarrow> bool \<times> gl_call list" where
  "ClipDistanceSlot i current updated =
     Enable_cap_value (GL_CLIP_DISTANCE0 + of_nat i) current updated"

definition ApplyClipDistances :: "OpenGLState \<Rightarrow> gl_context \<Rightarrow> gl_context" where
  "ApplyClipDistances this w =
     (let c = cur_state w;
          (cd, out) = for_slots (length (clip_distance this)) ClipDistanceSlot
                        (clip_distance c) (clip_distance this)
      in emit out (w\<lparr>cur_state := c\<lparr>clip_distance := cd\<rparr>\<rparr>))"

definition ApplyFragmentColorClamp :: "OpenGLState \<Rightarrow> gl_context \<Rightarrow> gl_context" where
  "ApplyFragmentColorClamp this w =
     (let c = cur_state w;
          (e, changed) = UpdateValue (FragmentColorClamp.enabled (fragment_color_clamp c))
                           (FragmentColorClamp.enabled (fragment_color_clamp this))
      in emit (if changed
               then [glClampColor GL_CLAMP_FRAGMENT_COLOR_ARB
                       (if FragmentColorClamp.enabled (fragment_color_clamp this) then GL_TRUE else GL_FALSE)]
               else [])
           (w\<lparr>cur_state := c\<lparr>fragment_color_clamp :=
                 (fragment_color_clamp c)\<lparr>FragmentColorClamp.enabled := e\<rparr>\<rparr>\<rparr>))"

definition ApplyMultisample :: "OpenGLState \<Rightarrow> gl_context \<Rightarrow> gl_context" where
  "ApplyMultisample this w =
     (let c = cur_state w;
          (cov, out1) = Enable_cap_value GL_SAMPLE_ALPHA_TO_COVERAGE
                          (alpha_to_coverage (multisample_control c))
                          (alpha_to_coverage (multisample_control this));
          (one, out2) = Enable_cap_value GL_SAMPLE_ALPHA_TO_ONE
                          (alpha_to_one (multisample_control c))
                          (alpha_to_one (multisample_control this))
      in emit (out1 @ out2)
           (w\<lparr>cur_state := c\<lparr>multisample_control :=
                 (multisample_control c)\<lparr>alpha_to_coverage := cov, alpha_to_one := one\<rparr>\<rparr>\<rparr>))"

definition ApplyRasterizerDiscard :: "OpenGLState \<Rightarrow> gl_context \<Rightarrow> gl_context" where
  "ApplyRasterizerDiscard this w =
     (let c = cur_state w;
          (rd, out) = Enable_cap_value GL_RASTERIZER_DISCARD (rasterizer_discard c) (rasterizer_discard this)
      in emit out (w\<lparr>cur_state := c\<lparr>rasterizer_discard := rd\<rparr>\<rparr>))"

definition ColorMaskSlot :: "nat \<Rightarrow> ColorMask \<Rightarrow> ColorMask \<Rightarrow> ColorMask \<times> gl_call list" where
  "ColorMaskSlot i current updated =
     (if red_enabled updated \<noteq> red_enabled current \<or>
         green_enabled updated \<noteq> green_enabled current \<or>
         blue_enabled updated \<noteq> blue_enabled current \<or>
         alpha_enabled updated \<noteq> alpha_enabled current
      then (updated, [glColorMaski (of_nat i) (red_enabled updated) (green_enabled updated)
                        (blue_enabled updated) (alpha_enabled updated)])
      else (current, []))"

definition ApplyColorMask :: "Sizes \<Rightarrow> OpenGLState \<Rightarrow> gl_context \<Rightarrow> gl_context" where
  "ApplyColorMask Z this w =
     (let c = cur_state w;
          (cm, out) = for_slots (NumRenderTargets Z) ColorMaskSlot (color_mask c) (color_mask this)
      in emit out (w\<lparr>cur_state := c\<lparr>color_mask := cm\<rparr>\<rparr>))"

definition ConfigStencil :: "GLenum \<Rightarrow> StencilFace \<Rightarrow> StencilFace \<Rightarrow> StencilFace \<times> gl_call list" where
  "ConfigStencil face config current =
     (let (c1, out1) =
            (if test_func current \<noteq> test_func config \<or> test_ref current \<noteq> test_ref config \<or>
                test_mask current \<noteq> test_mask config
             then (current\<lparr>test_func := test_func config, test_ref := test_ref config,
                            test_mask := test_mask config\<rparr>,
                   [glStencilFuncSeparate face (test_func config) (test_ref config) (test_mask config)])
             else (current, []));
          (c2, out2) =
            (if action_depth_fail c1 \<noteq> action_depth_fail config \<or>
                action_depth_pass c1 \<noteq> action_depth_pass config \<or>
                action_stencil_fail c1 \<noteq> action_stencil_fail config
             then (c1\<lparr>action_depth_fail := action_depth_fail config,
                       action_depth_pass := action_depth_pass config,
                       action_stencil_fail := action_stencil_fail config\<rparr>,
                   [glStencilOpSeparate face (action_stencil_fail config) (action_depth_fail config)
                      (action_depth_pass config)])
             else (c1, []));
          (c3, out3) =
            (if write_mask c2 \<noteq> write_mask config
             then (c2\<lparr>write_mask := write_mask config\<rparr>, [glStencilMaskSeparate face (write_mask config)])
             else (c2, []))
      in (c3, out1 @ out2 @ out3))"

definition ApplyStencilTest :: "OpenGLState \<Rightarrow> gl_context \<Rightarrow> gl_context" where
  "ApplyStencilTest this w =
     (let c = cur_state w;
          (te, out0) = Enable_cap_value GL_STENCIL_TEST (test_enabled (stencil c)) (test_enabled (stencil this));
          (f, out1) = ConfigStencil GL_FRONT (front (stencil this)) (front (stencil c));
          (b, out2) = ConfigStencil GL_BACK (back_face (stencil this)) (back_face (stencil c))
      in emit (out0 @ out1 @ out2)
           (w\<lparr>cur_state := c\<lparr>stencil := (stencil c)\<lparr>test_enabled := te, front := f, back_face := b\<rparr>\<rparr>\<rparr>))"

text \<open>The body of the loop of \<open>ApplyViewport\<close>. The two depth-range values are floats and
  are compared as such.\<close>

definition ViewportSlot :: "nat \<Rightarrow> Viewport \<Rightarrow> Viewport \<Rightarrow> Viewport \<times> gl_call list" where
  "ViewportSlot i current updated =
     (let (c1, out1) =
            (if Viewport.x current \<noteq> Viewport.x updated \<or> Viewport.y current \<noteq> Viewport.y updated \<or>
                Viewport.width current \<noteq> Viewport.width updated \<or>
                Viewport.height current \<noteq> Viewport.height updated
             then (current\<lparr>Viewport.x := Viewport.x updated, Viewport.y := Viewport.y updated,
                            Viewport.width := Viewport.width updated,
                            Viewport.height := Viewport.height updated\<rparr>,
                   [glViewportIndexedf (of_nat i) (Viewport.x updated) (Viewport.y updated)
                      (Viewport.width updated) (Viewport.height updated)])
             else (current, []));
          (c2, out2) =
            (if float_ne (depth_range_near c1) (depth_range_near updated) \<or>
                float_ne (depth_range_far c1) (depth_range_far updated)
             then (c1\<lparr>depth_range_near := depth_range_near updated,
                       depth_range_far := depth_range_far updated\<rparr>,
                   [glDepthRangeIndexed (of_nat i) (depth_range_near updated) (depth_range_far updated)])
             else (c1, []));
          (se, out3) = Enable_index_value GL_SCISSOR_TEST (of_nat i)
                         (Scissor.enabled (scissor c2)) (Scissor.enabled (scissor updated));
          c3 = c2\<lparr>scissor := (scissor c2)\<lparr>Scissor.enabled := se\<rparr>\<rparr>;
          (c4, out4) =
            (if Scissor.x (scissor c3) \<noteq> Scissor.x (scissor updated) \<or>
                Scissor.y (scissor c3) \<noteq> Scissor.y (scissor updated) \<or>
                Scissor.width (scissor c3) \<noteq> Scissor.width (scissor updated) \<or>
                Scissor.height (scissor c3) \<noteq> Scissor.height (scissor updated)
             then (c3\<lparr>scissor := (scissor c3)\<lparr>Scissor.x := Scissor.x (scissor updated),
                                                 Scissor.y := Scissor.y (scissor updated),
                                                 Scissor.width := Scissor.width (scissor updated),
                                                 Scissor.height := Scissor.height (scissor updated)\<rparr>\<rparr>,
                   [glScissorIndexed (of_nat i) (Scissor.x (scissor updated)) (Scissor.y (scissor updated))
                      (Scissor.width (scissor updated)) (Scissor.height (scissor updated))])
             else (c3, []))
      in (c4, out1 @ out2 @ out3 @ out4))"

definition ApplyViewport :: "Sizes \<Rightarrow> OpenGLState \<Rightarrow> gl_context \<Rightarrow> gl_context" where
  "ApplyViewport Z this w =
     (let c = cur_state w;
          (vs, out) = for_slots (NumViewports Z) ViewportSlot (viewports c) (viewports this)
      in emit out (w\<lparr>cur_state := c\<lparr>viewports := vs\<rparr>\<rparr>))"

text \<open>\<open>ApplyGlobalBlending\<close> works on target 0 only, through the calls without an index.\<close>

definition GlobalBlending :: "Blend \<Rightarrow> Blend \<Rightarrow> Blend \<times> gl_call list" where
  "GlobalBlending current updated =
     (let (e, out1) = Enable_cap_value GL_BLEND (Blend.enabled current) (Blend.enabled updated);
          c1 = current\<lparr>Blend.enabled := e\<rparr>;
          (c2, out2) =
            (if src_rgb_func c1 \<noteq> src_rgb_func updated \<or> dst_rgb_func c1 \<noteq> dst_rgb_func updated \<or>
                src_a_func c1 \<noteq> src_a_func updated \<or> dst_a_func c1 \<noteq> dst_a_func updated
             then (c1\<lparr>src_rgb_func := src_rgb_func updated, dst_rgb_func := dst_rgb_func updated,
                       src_a_func := src_a_func updated, dst_a_func := dst_a_func updated\<rparr>,
                   [glBlendFuncSeparate (src_rgb_func updated) (dst_rgb_func updated)
                      (src_a_func updated) (dst_a_func updated)])
             else (c1, []));
          (c3, out3) =
            (if rgb_equation c2 \<noteq> rgb_equation updated \<or> a_equation c2 \<noteq> a_equation updated
             then (c2\<lparr>rgb_equation := rgb_equation updated, a_equation := a_equation updated\<rparr>,
                   [glBlendEquationSeparate (rgb_equation updated) (a_equation updated)])
             else (c2, []))
      in (c3, out1 @ out2 @ out3))"

definition ApplyGlobalBlending :: "OpenGLState \<Rightarrow> gl_context \<Rightarrow> gl_context" where
  "ApplyGlobalBlending this w =
     (let c = cur_state w;
          (b, out) = GlobalBlending (blend c ! 0) (blend this ! 0)
      in emit out (w\<lparr>cur_state := c\<lparr>blend := (blend c)[0 := b]\<rparr>\<rparr>))"

text \<open>\<open>ApplyTargetBlending(target, force)\<close> on \<open>cur_state.blend[target]\<close> (\<open>current\<close>) and
  \<open>blend[target]\<close> (\<open>updated\<close>). \<open>force\<close> enters the condition of the enable flag only.\<close>

definition TargetBlending :: "bool \<Rightarrow> nat \<Rightarrow> Blend \<Rightarrow> Blend \<Rightarrow> Blend \<times> gl_call list" where
  "TargetBlending force target current updated =
     (let (c1, out1) =
            (if Blend.enabled current \<noteq> Blend.enabled updated \<or> force
             then (current\<lparr>Blend.enabled := Blend.enabled updated\<rparr>,
                   Enable_index GL_BLEND (of_nat target) (Blend.enabled updated))
             else (current, []));
          (funcs, funcs_changed) =
            UpdateTie (src_rgb_func c1, dst_rgb_func c1, src_a_func c1, dst_a_func c1)
              (src_rgb_func updated, dst_rgb_func updated, src_a_func updated, dst_a_func updated);
          c2 = (case funcs of (sr, dr, sa, da) \<Rightarrow>
                  c1\<lparr>src_rgb_func := sr, dst_rgb_func := dr, src_a_func := sa, dst_a_func := da\<rparr>);
          out2 = (if funcs_changed
                  then [glBlendFuncSeparatei (of_nat target) (src_rgb_func updated) (dst_rgb_func updated)
                          (src_a_func updated) (dst_a_func updated)]
                  else []);
          (eqs, eqs_changed) =
            UpdateTie (rgb_equation c2, a_equation c2) (rgb_equation updated, a_equation updated);
          c3 = (case eqs of (re, ae) \<Rightarrow> c2\<lparr>rgb_equation := re, a_equation := ae\<rparr>);
          out3 = (if eqs_changed
                  then [glBlendEquationSeparatei (of_nat target) (rgb_equation updated) (a_equation updated)]
                  else [])
      in (c3, out1 @ out2 @ out3))"

definition ApplyTargetBlending :: "nat \<Rightarrow> bool \<Rightarrow> OpenGLState \<Rightarrow> gl_context \<Rightarrow> gl_context" where
  "ApplyTargetBlending target force this w =
     (let c = cur_state w;
          (b, out) = TargetBlending force target (blend c ! target) (blend this ! target)
      in emit out (w\<lparr>cur_state := c\<lparr>blend := (blend c)[target := b]\<rparr>\<rparr>))"

definition ApplyBlending :: "Sizes \<Rightarrow> OpenGLState \<Rightarrow> gl_context \<Rightarrow> gl_context" where
  "ApplyBlending Z this w =
     (let w1 =
            (if IndependantBlend.enabled (independant_blend this)
             then (let force = (IndependantBlend.enabled (independant_blend this) \<noteq>
                                IndependantBlend.enabled (independant_blend (cur_state w)))
                   in fold (\<lambda>target. ApplyTargetBlending target force this) [0..<NumRenderTargets Z] w)
             else ApplyGlobalBlending this w);
          c1 = cur_state w1
      in w1\<lparr>cur_state := c1\<lparr>independant_blend :=
              (independant_blend c1)\<lparr>IndependantBlend.enabled :=
                 IndependantBlend.enabled (independant_blend this)\<rparr>\<rparr>\<rparr>)"

definition ApplyClipControl :: "OpenGLState \<Rightarrow> gl_context \<Rightarrow> gl_context" where
  "ApplyClipControl this w =
     (let c = cur_state w;
          (cc, changed) = UpdateTie (origin (clip_control c), depth_mode (clip_control c))
                            (origin (clip_control this), depth_mode (clip_control this))
      in emit (if changed
               then [glClipControl (origin (clip_control this)) (depth_mode (clip_control this))]
               else [])
           (w\<lparr>cur_state := c\<lparr>clip_control :=
                 (clip_control c)\<lparr>origin := fst cc, depth_mode := snd cc\<rparr>\<rparr>\<rparr>))"

definition ApplyRenderBuffer :: "OpenGLState \<Rightarrow> gl_context \<Rightarrow> gl_context" where
  "ApplyRenderBuffer this w =
     (let c = cur_state w
      in if renderbuffer c \<noteq> renderbuffer this
         then emit [glBindRenderbuffer GL_RENDERBUFFER (renderbuffer this)]
                (w\<lparr>cur_state := c\<lparr>renderbuffer := renderbuffer this\<rparr>\<rparr>)
         else w)"

definition TextureSlot :: "nat \<Rightarrow> GLuint \<Rightarrow> GLuint \<Rightarrow> GLuint \<times> gl_call list" where
  "TextureSlot i current updated =
     (case UpdateValue current updated of (v, changed) \<Rightarrow>
        (v, if changed then (if updated \<noteq> 0 then [glBindTextureUnit (of_nat i) updated] else []) else []))"

definition ApplyTextures :: "OpenGLState \<Rightarrow> gl_context \<Rightarrow> gl_context" where
  "ApplyTextures this w =
     (let c = cur_state w;
          (ts, out) = for_slots (length (textures this)) TextureSlot (textures c) (textures this)
      in emit out (w\<lparr>cur_state := c\<lparr>textures := ts\<rparr>\<rparr>))"

definition SamplerSlot :: "nat \<Rightarrow> GLuint \<Rightarrow> GLuint \<Rightarrow> GLuint \<times> gl_call list" where
  "SamplerSlot i current updated =
     (case UpdateValue current updated of (v, changed) \<Rightarrow>
        (v, if changed then [glBindSampler (of_nat i) updated] else []))"

definition ApplySamplers :: "OpenGLState \<Rightarrow> gl_context \<Rightarrow> gl_context" where
  "ApplySamplers this w =
     (let c = cur_state w;
          (ss, out) = for_slots (length (samplers this)) SamplerSlot (samplers c) (samplers this)
      in emit out (w\<lparr>cur_state := c\<lparr>samplers := ss\<rparr>\<rparr>))"

definition ApplyImages :: "OpenGLState \<Rightarrow> gl_context \<Rightarrow> gl_context" where
  "ApplyImages this w =
     (let c = cur_state w;
          (im, update) = UpdateArray (images c) (images this)
      in emit (case update of
                 None \<Rightarrow> []
               | Some (first, count) \<Rightarrow>
                   [glBindImageTextures first count (take (unat count) (drop (unat first) (images this)))])
           (w\<lparr>cur_state := c\<lparr>images := im\<rparr>\<rparr>))"

section \<open>Apply\<close>

definition Apply :: "Sizes \<Rightarrow> OpenGLState \<Rightarrow> gl_context \<Rightarrow> gl_context" where
  "Apply Z this w =
     (let w = ApplyFramebufferState this w;
          w = ApplyShaderProgram this w;
          w = ApplyProgramPipeline this w;
          w = ApplyClipDistances this w;
          w = ApplyFragmentColorClamp this w;
          w = ApplyMultisample this w;
          w = ApplyRasterizerDiscard this w;
          w = ApplyColorMask Z this w;
          w = ApplyViewport Z this w;
          w = ApplyStencilTest this w;
          w = ApplyBlending Z this w;
          w = ApplyTextures this w;
          w = ApplySamplers this w;
          w = ApplyImages this w;
          w = ApplyClipControl this w;
          w = ApplyRenderBuffer this w
      in w)"

text \<open>The driver calls that a step issues when it is run in the context \<open>w\<close>: what it
  appends to the calls issued before.\<close>

definition issued :: "(gl_context \<Rightarrow> gl_context) \<Rightarrow> gl_context \<Rightarrow> gl_call list" where
  "issued step w = drop (length (calls w)) (calls (step w))"

fun is_texture_bind :: "gl_call \<Rightarrow> bool" where
  "is_texture_bind (glBindTextureUnit unit texture) = True"
| "is_texture_bind _ = False"

text \<open>\<open>binds_texture_unit unit c\<close>: the call \<open>c\<close> binds a texture to the unit \<open>unit\<close>.\<close>

fun binds_texture_unit :: "GLuint \<Rightarrow> gl_call \<Rightarrow> bool" where
  "binds_texture_unit u (glBindTextureUnit unit texture) = (unit = u)"
| "binds_texture_unit u _ = False"

fun is_image_bind :: "gl_call \<Rightarrow> bool" where
  "is_image_bind (glBindImageTextures first count handles) = True"
| "is_image_bind _ = False"

section \<open>Viewport emulation and invalidation\<close>

text \<open>\<open>EmulateViewportWithScissor\<close> rewrites the scissor of viewport 0 of the state it is
  called on. The sums and differences are those of \<open>GLint\<close>; where C++ leaves a signed
  overflow undefined, the word wraps.\<close>

definition EmulateViewportWithScissor :: "OpenGLState \<Rightarrow> OpenGLState" where
  "EmulateViewportWithScissor this =
     (let current = viewports this ! 0;
          current' =
            (if Scissor.enabled (scissor current)
             then (let left = std_max (Viewport.x current) (Scissor.x (scissor current));
                       right = std_max (Viewport.x current + Viewport.width current)
                                 (Scissor.x (scissor current) + Scissor.width (scissor current));
                       bottom = std_max (Viewport.y current) (Scissor.y (scissor current));
                       top = std_max (Viewport.y current + Viewport.height current)
                               (Scissor.y (scissor current) + Scissor.height (scissor current))
                   in current\<lparr>scissor := (scissor current)\<lparr>
                        Scissor.x := std_max left 0,
                        Scissor.y := std_max bottom 0,
                        Scissor.width := std_max (right - left) 0,
                        Scissor.height := std_max (top - bottom) 0\<rparr>\<rparr>)
             else current\<lparr>scissor := (scissor current)\<lparr>
                    Scissor.enabled := True,
                    Scissor.x := Viewport.x current,
                    Scissor.y := Viewport.y current,
                    Scissor.width := Viewport.width current,
                    Scissor.height := Viewport.height current\<rparr>\<rparr>)
      in this\<lparr>viewports := (viewports this)[0 := current']\<rparr>)"

text \<open>The invalidation helpers return \<open>*this\<close>: the state they were called on, after the
  scrub.\<close>

definition UnbindTexture :: "GLuint \<Rightarrow> OpenGLState \<Rightarrow> OpenGLState" where
  "UnbindTexture handle this =
     this\<lparr>textures := map (\<lambda>texture. if texture = handle then 0 else texture) (textures this)\<rparr>"

definition ResetSampler :: "GLuint \<Rightarrow> OpenGLState \<Rightarrow> OpenGLState" where
  "ResetSampler handle this =
     this\<lparr>samplers := map (\<lambda>sampler. if sampler = handle then 0 else sampler) (samplers this)\<rparr>"

definition ResetProgram :: "GLuint \<Rightarrow> OpenGLState \<Rightarrow> OpenGLState" where
  "ResetProgram handle this =
     (if shader_program (draw this) = handle
      then this\<lparr>draw := (draw this)\<lparr>shader_program := 0\<rparr>\<rparr>
      else this)"

definition ResetPipeline :: "GLuint \<Rightarrow> OpenGLState \<Rightarrow> OpenGLState" where
  "ResetPipeline handle this =
     (if program_pipeline (draw this) = handle
      then this\<lparr>draw := (draw this)\<lparr>program_pipeline := 0\<rparr>\<rparr>
      else this)"

definition ResetFramebuffer :: "GLuint \<Rightarrow> OpenGLState \<Rightarrow> OpenGLState" where
  "ResetFramebuffer handle this =
     (let s1 = (if read_framebuffer (draw this) = handle
                then this\<lparr>draw := (draw this)\<lparr>read_framebuffer := 0\<rparr>\<rparr>
                else this)
      in if draw_framebuffer (draw s1) = handle
         then s1\<lparr>draw := (draw s1)\<lparr>draw_framebuffer := 0\<rparr>\<rparr>
         else s1)"

definition ResetRenderbuffer :: "GLuint \<Rightarrow> OpenGLState \<Rightarrow> OpenGLState" where
  "ResetRenderbuffer handle this =
     (if renderbuffer this = handle then this\<lparr>renderbuffer := 0\<rparr> else this)"

section \<open>The device: binding bases and the component-indexing probe\<close>

text \<open>The limits that the constructor of \<open>Device\<close> asks the driver for, and the driver as
  the function that answers \<open>glGetIntegerv\<close>.\<close>

datatype pname =
    GL_MAX_VERTEX_UNIFORM_BLOCKS
  | GL_MAX_VERTEX_SHADER_STORAGE_BLOCKS
  | GL_MAX_VERTEX_TEXTURE_IMAGE_UNITS
  | GL_MAX_VERTEX_IMAGE_UNIFORMS
  | GL_MAX_TESS_CONTROL_UNIFORM_BLOCKS
  | GL_MAX_TESS_CONTROL_SHADER_STORAGE_BLOCKS
  | GL_MAX_TESS_CONTROL_TEXTURE_IMAGE_UNITS
  | GL_MAX_TESS_CONTROL_IMAGE_UNIFORMS
  | GL_MAX_TESS_EVALUATION_UNIFORM_BLOCKS
  | GL_MAX_TESS_EVALUATION_SHADER_STORAGE_BLOCKS
  | GL_MAX_TESS_EVALUATION_TEXTURE_IMAGE_UNITS
  | GL_MAX_TESS_EVALUATION_IMAGE_UNIFORMS
  | GL_MAX_GEOMETRY_UNIFORM_BLOCKS
  | GL_MAX_GEOMETRY_SHADER_STORAGE_BLOCKS
  | GL_MAX_GEOMETRY_TEXTURE_IMAGE_UNITS
  | GL_MAX_GEOMETRY_IMAGE_UNIFORMS

type_synonym driver = "pname \<Rightarrow> GLint"

text \<open>Modelled from the spec: the struct \<open>Device::BaseBindings\<close> (\<open>gl_device.h\<close>) is not
  among the sources; it holds the four offsets \<open>operator+\<close> and \<open>BuildBaseBindings\<close> fill, in
  their order, as \<open>u32\<close>.\<close>

record BaseBindings =
  uniform_buffer :: u32
  shader_storage_buffer :: u32
  sampler :: u32
  image :: u32

definition ReservedUniformBlocks :: u32 where
  "ReservedUniformBlocks = 1"

text \<open>\<open>GetInteger<u32>\<close>: the \<open>GLint\<close> the driver stores, cast to \<open>u32\<close> (the same bits).\<close>

definition GetInteger :: "driver \<Rightarrow> pname \<Rightarrow> u32" where
  "GetInteger glGetIntegerv pn = glGetIntegerv pn"

text \<open>\<open>operator+\<close> on \<open>BaseBindings\<close>.\<close>

definition plus_BaseBindings :: "BaseBindings \<Rightarrow> BaseBindings \<Rightarrow> BaseBindings" where
  "plus_BaseBindings lhs rhs =
     \<lparr>uniform_buffer = uniform_buffer lhs + uniform_buffer rhs,
      shader_storage_buffer = shader_storage_buffer lhs + shader_storage_buffer rhs,
      sampler = sampler lhs + sampler rhs,
      image = image lhs + image rhs\<rparr>"

definition BuildBaseBindings :: "driver \<Rightarrow> pname \<Rightarrow> pname \<Rightarrow> pname \<Rightarrow> pname \<Rightarrow> BaseBindings" where
  "BuildBaseBindings glGetIntegerv uniform_blocks shader_storage_blocks texture_image_units image_uniforms =
     \<lparr>uniform_buffer = GetInteger glGetIntegerv uniform_blocks - ReservedUniformBlocks,
      shader_storage_buffer = GetInteger glGetIntegerv shader_storage_blocks,
      sampler = GetInteger glGetIntegerv texture_image_units,
      image = GetInteger glGetIntegerv image_uniforms\<rparr>"

text \<open>The part of the constructor \<open>Device::Device()\<close> that fills \<open>base_bindings\<close>: the six
  entries, in the order of their indices.\<close>

definition Device_base_bindings :: "driver \<Rightarrow> BaseBindings list" where
  "Device_base_bindings glGetIntegerv =
     (let b0 = \<lparr>uniform_buffer = ReservedUniformBlocks, shader_storage_buffer = 0, sampler = 0, image = 0\<rparr>;
          b1 = plus_BaseBindings b0
                 (BuildBaseBindings glGetIntegerv GL_MAX_VERTEX_UNIFORM_BLOCKS
                    GL_MAX_VERTEX_SHADER_STORAGE_BLOCKS GL_MAX_VERTEX_TEXTURE_IMAGE_UNITS
                    GL_MAX_VERTEX_IMAGE_UNIFORMS);
          b2 = plus_BaseBindings b1
                 (BuildBaseBindings glGetIntegerv GL_MAX_TESS_CONTROL_UNIFORM_BLOCKS
                    GL_MAX_TESS_CONTROL_SHADER_STORAGE_BLOCKS GL_MAX_TESS_CONTROL_TEXTURE_IMAGE_UNITS
                    GL_MAX_TESS_CONTROL_IMAGE_UNIFORMS);
          b3 = plus_BaseBindings b2
                 (BuildBaseBindings glGetIntegerv GL_MAX_TESS_EVALUATION_UNIFORM_BLOCKS
                    GL_MAX_TESS_EVALUATION_SHADER_STORAGE_BLOCKS
                    GL_MAX_TESS_EVALUATION_TEXTURE_IMAGE_UNITS GL_MAX_TESS_EVALUATION_IMAGE_UNIFORMS);
          b4 = plus_BaseBindings b3
                 (BuildBaseBindings glGetIntegerv GL_MAX_GEOMETRY_UNIFORM_BLOCKS
                    GL_MAX_GEOMETRY_SHADER_STORAGE_BLOCKS GL_MAX_GEOMETRY_TEXTURE_IMAGE_UNITS
                    GL_MAX_GEOMETRY_IMAGE_UNIFORMS);
          b5 = \<lparr>uniform_buffer = 0, shader_storage_buffer = 0, sampler = 0, image = 0\<rparr>
      in [b0, b1, b2, b3, b4, b5])"

text \<open>
  \<open>TestComponentIndexingBug\<close>. What the program run on the device leaves in the storage
  buffer for a given \<open>idx\<close> is the device's business: it is the parameter \<open>device\<close>, any
  function. \<open>at\<close> is the checked access of \<open>std::array\<close>, which throws when the index is not
  below the size; the loop runs \<open>index\<close> from 4 while it is below 8.
\<close>

datatype probe_error = out_of_range

definition values_array :: "GLuint list" where
  "values_array = [0, 0, 0, 0, 0x1236327, 0x985482, 0x872753, 0x2378432]"

definition at :: "'a list \<Rightarrow> GLuint \<Rightarrow> probe_error + 'a" where
  "at xs index = (if unat index < length xs then Inr (xs ! unat index) else Inl out_of_range)"

function TestComponentIndexingBug_loop :: "(GLuint \<Rightarrow> GLuint) \<Rightarrow> GLuint \<Rightarrow> probe_error + bool" where
  "TestComponentIndexingBug_loop device index =
     (if index < 8
      then (let result = device index
            in case at values_array index of
                 Inl e \<Rightarrow> Inl e
               | Inr v \<Rightarrow> if result \<noteq> v then Inr True
                          else TestComponentIndexingBug_loop device (index + 1))
      else Inr False)"
  by pat_completeness auto
termination
proof (relation "measure (\<lambda>(device, index). 8 - unat index)")
  show "wf (measure (\<lambda>(device, index). 8 - unat index))"
    by simp
next
  fix device :: "GLuint \<Rightarrow> GLuint" and index :: GLuint and result xa y
  assume "index < 8"
  then have "unat index < 8"
    by (simp add: word_less_nat_alt)
  then have "unat (index + 1) = unat index + 1"
    by (simp add: unat_word_ariths)
  with \<open>unat index < 8\<close>
  show "((device, index + 1), (device, index)) \<in> measure (\<lambda>(device, index). 8 - unat index)"
    by simp
qed

declare TestComponentIndexingBug_loop.simps [simp del]

definition TestComponentIndexingBug :: "(GLuint \<Rightarrow> GLuint) \<Rightarrow> probe_error + bool" where
  "TestComponentIndexingBug device = TestComponentIndexingBug_loop device 4"

section \<open>Concrete inputs\<close>

text \<open>Small state values on which the functions are evaluated below: two render targets,
  one viewport, one clip distance, four texture and sampler units, six image units.\<close>

definition example_sizes :: Sizes where
  "example_sizes = \<lparr>NumRenderTargets = 2, NumViewports = 1, NumClipDistances = 1,
                     NumSamplers = 4, NumImages = 6\<rparr>"

definition example_face :: StencilFace where
  "example_face = \<lparr>test_func = 0x0207, test_ref = 0, test_mask = 0xFFFFFFFF, write_mask = 0xFFFFFFFF,
                    action_stencil_fail = 0x1E00, action_depth_fail = 0x1E00,
                    action_depth_pass = 0x1E00\<rparr>"

definition example_blend :: Blend where
  "example_blend = \<lparr>Blend.enabled = False, rgb_equation = 0x8006, a_equation = 0x8006,
                     src_rgb_func = 1, dst_rgb_func = 0, src_a_func = 1, dst_a_func = 0\<rparr>"

definition example_viewport :: Viewport where
  "example_viewport = \<lparr>Viewport.x = 0, Viewport.y = 0, Viewport.width = 0, Viewport.height = 0,
                        depth_range_near = 0, depth_range_far = 0x3F800000,
                        scissor = \<lparr>Scissor.enabled = False, Scissor.x = 0, Scissor.y = 0,
                                   Scissor.width = 0, Scissor.height = 0\<rparr>\<rparr>"

definition example_state :: OpenGLState where
  "example_state =
     \<lparr>draw = \<lparr>read_framebuffer = 0, draw_framebuffer = 0, shader_program = 0, program_pipeline = 0\<rparr>,
      clip_distance = [False],
      fragment_color_clamp = \<lparr>FragmentColorClamp.enabled = False\<rparr>,
      multisample_control = \<lparr>alpha_to_coverage = False, alpha_to_one = False\<rparr>,
      rasterizer_discard = False,
      color_mask = [\<lparr>red_enabled = True, green_enabled = True, blue_enabled = True, alpha_enabled = True\<rparr>,
                    \<lparr>red_enabled = True, green_enabled = True, blue_enabled = True, alpha_enabled = True\<rparr>],
      viewports = [example_viewport],
      stencil = \<lparr>test_enabled = False, front = example_face, back_face = example_face\<rparr>,
      blend = [example_blend, example_blend],
      independant_blend = \<lparr>IndependantBlend.enabled = False\<rparr>,
      textures = [0, 0, 0, 0],
      samplers = [0, 0, 0, 0],
      images = [0, 0, 0, 0, 0, 0],
      clip_control = \<lparr>origin = 0x8CA1, depth_mode = 0x935E\<rparr>,
      renderbuffer = 0\<rparr>"

definition example_context :: gl_context where
  "example_context = \<lparr>cur_state = example_state, calls = []\<rparr>"

text \<open>A driver that reports 14 for every limit.\<close>

definition driver14 :: driver where
  "driver14 pn = 14"

text \<open>A device that leaves 0 in the storage buffer whatever the index.\<close>

definition device0 :: "GLuint \<Rightarrow> GLuint" where
  "device0 idx = 0"

text \<open>Viewport 0 is the rectangle \<open>{0, 0, 100, 100}\<close>, its scissor is enabled with the
  rectangle \<open>{10, 10, 50, 50}\<close>.\<close>

definition scissored_state :: OpenGLState where
  "scissored_state =
     example_state\<lparr>viewports :=
       [example_viewport\<lparr>Viewport.width := 100, Viewport.height := 100,
          scissor := \<lparr>Scissor.enabled = True, Scissor.x = 10, Scissor.y = 10,
                      Scissor.width = 50, Scissor.height = 50\<rparr>\<rparr>]\<rparr>"

text \<open>The rectangle that the specification describes for an enabled scissor: the union
  (bounding box) of the viewport rectangle and the scissor rectangle, clamped at 0.\<close>

definition spec_union_scissor :: "Viewport \<Rightarrow> Scissor" where
  "spec_union_scissor v =
     (let left = (if sint (Scissor.x (scissor v)) < sint (Viewport.x v)
                  then Scissor.x (scissor v) else Viewport.x v);
          right = std_max (Viewport.x v + Viewport.width v)
                    (Scissor.x (scissor v) + Scissor.width (scissor v));
          bottom = (if sint (Scissor.y (scissor v)) < sint (Viewport.y v)
                    then Scissor.y (scissor v) else Viewport.y v);
          top = std_max (Viewport.y v + Viewport.height v)
                  (Scissor.y (scissor v) + Scissor.height (scissor v))
      in \<lparr>Scissor.enabled = True, Scissor.x = std_max left 0, Scissor.y = std_max bottom 0,
          Scissor.width = std_max (right - left) 0, Scissor.height = std_max (top - bottom) 0\<rparr>)"

text \<open>A desired state with independent blending off whose blend record of target 1 differs
  from the applied one.\<close>

definition blend1_state :: OpenGLState where
  "blend1_state = example_state\<lparr>blend := [example_blend, example_blend\<lparr>Blend.enabled := True\<rparr>]\<rparr>"

text \<open>A desired state whose near depth-range value of viewport 0 is a NaN.\<close>

definition nan_state :: OpenGLState where
  "nan_state = example_state\<lparr>viewports := [example_viewport\<lparr>depth_range_near := 0x7FC00000\<rparr>]\<rparr>"

text \<open>A desired state that binds handles and sets flags in several categories.\<close>

definition busy_state :: OpenGLState where
  "busy_state = example_state\<lparr>
     draw := \<lparr>read_framebuffer = 3, draw_framebuffer = 3, shader_program = 9, program_pipeline = 0\<rparr>,
     rasterizer_discard := True,
     independant_blend := \<lparr>IndependantBlend.enabled = True\<rparr>,
     textures := [0, 5, 0, 7],
     images := [0, 0, 11, 0, 0, 12],
     renderbuffer := 2\<rparr>"

text \<open>A desired state that binds the handle 7 at texture unit 3.\<close>

definition handle_state :: OpenGLState where
  "handle_state = example_state\<lparr>textures := [0, 0, 0, 7]\<rparr>"

text \<open>The state reached from \<open>handle_state\<close> by scrubbing the handle 7 and then binding the
  same handle value at unit 3 again.\<close>

definition rebound_state :: OpenGLState where
  "rebound_state =
     (UnbindTexture 7 handle_state)\<lparr>textures := (textures (UnbindTexture 7 handle_state))[3 := 7]\<rparr>"

text \<open>\<open>example_state\<close> with independent blending requested; the blend records are those of
  \<open>example_state\<close>.\<close>

definition independent_state :: OpenGLState where
  "independent_state = example_state\<lparr>independant_blend := \<lparr>IndependantBlend.enabled = True\<rparr>\<rparr>"

text \<open>The context after \<open>handle_state\<close> has been applied: the applied state holds the
  handle 7 at texture unit 3.\<close>

definition handle_context :: gl_context where
  "handle_context = \<lparr>cur_state = handle_state, calls = [glBindTextureUnit 3 7]\<rparr>"

text \<open>A context whose applied state has the handles 5 and 7 bound at the texture units 1
  and 3, and a desired state that unbinds unit 1 (handle 0), binds the handle 9 at unit 2
  and keeps unit 3.\<close>

definition bound_context :: gl_context where
  "bound_context = \<lparr>cur_state = example_state\<lparr>textures := [0, 5, 0, 7]\<rparr>, calls = []\<rparr>"

definition unbind_state :: OpenGLState where
  "unbind_state = example_state\<lparr>textures := [0, 0, 9, 7]\<rparr>"


section \<open>Loops over slots\<close>


lemma for_slots_fold:
  "n \<le> length current \<Longrightarrow>
   fold (\<lambda>i (cur, out). case body i (cur ! i) (updated ! i) of (c, cs) \<Rightarrow> (cur[i := c], out @ cs))
     [0..<n] (current, []) =
   (map (\<lambda>i. fst (body i (current ! i) (updated ! i))) [0..<n] @ drop n current,
    concat (map (\<lambda>i. snd (body i (current ! i) (updated ! i))) [0..<n]))"
proof (induction n)
  case 0
  then show ?case by simp
next
  case (Suc n)
  then have n: "n < length current" by simp
  have nth: "(map (\<lambda>i. fst (body i (current ! i) (updated ! i))) [0..<n] @ drop n current) ! n = current ! n"
    using n by (simp add: nth_append)
  have upd: "(map (\<lambda>i. fst (body i (current ! i) (updated ! i))) [0..<n] @ drop n current)[n := v]
      = map (\<lambda>i. fst (body i (current ! i) (updated ! i))) [0..<n] @ v # drop (Suc n) current" for v
    using n by (simp add: list_update_append Cons_nth_drop_Suc[symmetric])
  show ?case
    using Suc.IH n by (simp add: nth upd split: prod.split)
qed

lemma for_slots_eq:
  "n = length current \<Longrightarrow>
   for_slots n body current updated =
   (map (\<lambda>i. fst (body i (current ! i) (updated ! i))) [0..<n],
    concat (map (\<lambda>i. snd (body i (current ! i) (updated ! i))) [0..<n]))"
  by (simp add: for_slots_def for_slots_fold)

text \<open>A loop whose body stores the desired slot leaves the desired array.\<close>

lemma for_slots_stores:
  assumes "length current = n" "length updated = n"
    and "\<And>i c u. fst (body i c u) = u"
  shows "for_slots n body current updated =
    (updated, concat (map (\<lambda>i. snd (body i (current ! i) (updated ! i))) [0..<n]))"
proof -
  have "map (\<lambda>i. updated ! i) [0..<n] = updated"
    using map_nth [of updated] by (simp only: assms(2))
  then show ?thesis
    by (simp add: for_slots_eq [OF assms(1) [symmetric]] assms(3))
qed

text \<open>A loop whose body finds every slot in place changes nothing and issues nothing.\<close>

lemma for_slots_idle:
  assumes "length current = n"
    and "\<And>i. i < n \<Longrightarrow> body i (current ! i) (updated ! i) = (current ! i, [])"
  shows "for_slots n body current updated = (current, [])"
proof -
  have a: "map (\<lambda>i. fst (body i (current ! i) (updated ! i))) [0..<n] = map (\<lambda>i. current ! i) [0..<n]"
    using assms(2) by simp
  have b: "map (\<lambda>i. current ! i) [0..<n] = current"
    using map_nth [of current] by (simp only: assms(1))
  have c: "concat (map (\<lambda>i. snd (body i (current ! i) (updated ! i))) [0..<n]) = []"
    using assms(2) by simp
  show ?thesis
    by (simp only: for_slots_eq [OF assms(1) [symmetric]] a b c)
qed

lemma ClipDistanceSlot_fst: "fst (ClipDistanceSlot i c u) = u"
  by (simp add: ClipDistanceSlot_def Enable_cap_value_def UpdateValue_def)

lemma ClipDistanceSlot_idle: "ClipDistanceSlot i u u = (u, [])"
  by (simp add: ClipDistanceSlot_def Enable_cap_value_def UpdateValue_def)

lemma ColorMaskSlot_fst: "fst (ColorMaskSlot i c u) = u"
  by (cases c, cases u) (simp add: ColorMaskSlot_def)

lemma ColorMaskSlot_idle: "ColorMaskSlot i u u = (u, [])"
  by (simp add: ColorMaskSlot_def)

lemma TextureSlot_eq:
  "TextureSlot i c u = (u, if c \<noteq> u \<and> u \<noteq> 0 then [glBindTextureUnit (of_nat i) u] else [])"
  by (simp add: TextureSlot_def UpdateValue_def)

lemma SamplerSlot_eq:
  "SamplerSlot i c u = (u, if c \<noteq> u then [glBindSampler (of_nat i) u] else [])"
  by (simp add: SamplerSlot_def UpdateValue_def)

lemma ConfigStencil_fst: "fst (ConfigStencil face config current) = config"
  by (cases config, cases current) (simp add: ConfigStencil_def Let_def split: prod.split)

lemma ConfigStencil_idle: "ConfigStencil face config config = (config, [])"
  by (simp add: ConfigStencil_def)

lemma GlobalBlending_fst: "fst (GlobalBlending c u) = u"
  by (cases c, cases u) (simp add: GlobalBlending_def Enable_cap_value_def UpdateValue_def Let_def split: prod.split)

lemma GlobalBlending_idle: "GlobalBlending u u = (u, [])"
  by (simp add: GlobalBlending_def Enable_cap_value_def UpdateValue_def)

lemma TargetBlending_fst: "fst (TargetBlending force t c u) = u"
  by (cases c, cases u) (simp add: TargetBlending_def UpdateTie_def Let_def split: prod.split)

lemma TargetBlending_idle: "TargetBlending False t u u = (u, [])"
  by (simp add: TargetBlending_def UpdateTie_def)

lemma ViewportSlot_applied: "viewport_applied (fst (ViewportSlot i c u)) u"
  by (cases c, cases u, cases "scissor c", cases "scissor u")
     (auto simp add: ViewportSlot_def viewport_applied_def float_same_def Enable_index_value_def 
         UpdateValue_def Let_def split: prod.split)

lemma ViewportSlot_idle:
  "viewport_applied c u \<Longrightarrow> \<not> is_nan (depth_range_near u) \<Longrightarrow> \<not> is_nan (depth_range_far u) \<Longrightarrow>
   ViewportSlot i c u = (c, [])"
  by (auto simp add: ViewportSlot_def viewport_applied_def float_same_def float_ne_def Enable_index_value_def 
         UpdateValue_def Let_def split: prod.split)

section \<open>The steps of Apply: what they store, and when they are idle\<close>

lemma ApplyFramebufferState_cur:
  "cur_state (ApplyFramebufferState this w) =
     (cur_state w)\<lparr>draw := (draw (cur_state w))\<lparr>read_framebuffer := read_framebuffer (draw this),
                                                draw_framebuffer := draw_framebuffer (draw this)\<rparr>\<rparr>"
  by (simp add: ApplyFramebufferState_def UpdateValue_def emit_def Let_def)

lemma ApplyFramebufferState_idle:
  "read_framebuffer (draw (cur_state w)) = read_framebuffer (draw this) \<Longrightarrow>
   draw_framebuffer (draw (cur_state w)) = draw_framebuffer (draw this) \<Longrightarrow>
   ApplyFramebufferState this w = w"
  by (simp add: ApplyFramebufferState_def UpdateValue_def emit_def Let_def)

lemma ApplyShaderProgram_cur:
  "cur_state (ApplyShaderProgram this w) =
     (cur_state w)\<lparr>draw := (draw (cur_state w))\<lparr>shader_program := shader_program (draw this)\<rparr>\<rparr>"
  by (simp add: ApplyShaderProgram_def UpdateValue_def emit_def Let_def)

lemma ApplyShaderProgram_idle:
  "shader_program (draw (cur_state w)) = shader_program (draw this) \<Longrightarrow> ApplyShaderProgram this w = w"
  by (simp add: ApplyShaderProgram_def UpdateValue_def emit_def Let_def)

lemma ApplyProgramPipeline_cur:
  "cur_state (ApplyProgramPipeline this w) =
     (cur_state w)\<lparr>draw := (draw (cur_state w))\<lparr>program_pipeline := program_pipeline (draw this)\<rparr>\<rparr>"
  by (simp add: ApplyProgramPipeline_def UpdateValue_def emit_def Let_def)

lemma ApplyProgramPipeline_idle:
  "program_pipeline (draw (cur_state w)) = program_pipeline (draw this) \<Longrightarrow> ApplyProgramPipeline this w = w"
  by (simp add: ApplyProgramPipeline_def UpdateValue_def emit_def Let_def)

lemma ApplyClipDistances_cur:
  assumes "length (clip_distance (cur_state w)) = length (clip_distance this)"
  shows "cur_state (ApplyClipDistances this w) = (cur_state w)\<lparr>clip_distance := clip_distance this\<rparr>"
proof -
  have "for_slots (length (clip_distance this)) ClipDistanceSlot (clip_distance (cur_state w)) (clip_distance this) =
      (clip_distance this, concat (map (\<lambda>i. snd (ClipDistanceSlot i (clip_distance (cur_state w) ! i) (clip_distance this ! i))) [0..<length (clip_distance this)]))"
    by (rule for_slots_stores) (simp_all add: assms ClipDistanceSlot_fst)
  then show ?thesis
    using assms by (simp add: ApplyClipDistances_def emit_def Let_def)
qed

lemma ApplyClipDistances_idle:
  assumes "clip_distance (cur_state w) = clip_distance this"
  shows "ApplyClipDistances this w = w"
proof -
  have "for_slots (length (clip_distance this)) ClipDistanceSlot (clip_distance this) (clip_distance this) = (clip_distance this, [])"
    by (rule for_slots_idle) (simp_all add: assms ClipDistanceSlot_idle)
  then show ?thesis
    using assms by (simp add: ApplyClipDistances_def emit_def Let_def)
qed

lemma ApplyFragmentColorClamp_cur:
  "cur_state (ApplyFragmentColorClamp this w) =
     (cur_state w)\<lparr>fragment_color_clamp := fragment_color_clamp this\<rparr>"
  by (cases "fragment_color_clamp this", cases "fragment_color_clamp (cur_state w)")
     (simp add: ApplyFragmentColorClamp_def UpdateValue_def emit_def Let_def)

lemma ApplyFragmentColorClamp_idle:
  "fragment_color_clamp (cur_state w) = fragment_color_clamp this \<Longrightarrow> ApplyFragmentColorClamp this w = w"
  by (simp add: ApplyFragmentColorClamp_def UpdateValue_def emit_def Let_def)

lemma ApplyMultisample_cur:
  "cur_state (ApplyMultisample this w) = (cur_state w)\<lparr>multisample_control := multisample_control this\<rparr>"
  by (cases "multisample_control this", cases "multisample_control (cur_state w)")
     (simp add: ApplyMultisample_def Enable_cap_value_def UpdateValue_def emit_def Let_def)

lemma ApplyMultisample_idle:
  "multisample_control (cur_state w) = multisample_control this \<Longrightarrow> ApplyMultisample this w = w"
  by (simp add: ApplyMultisample_def Enable_cap_value_def UpdateValue_def emit_def Let_def)

lemma ApplyRasterizerDiscard_cur:
  "cur_state (ApplyRasterizerDiscard this w) = (cur_state w)\<lparr>rasterizer_discard := rasterizer_discard this\<rparr>"
  by (simp add: ApplyRasterizerDiscard_def Enable_cap_value_def UpdateValue_def emit_def Let_def)

lemma ApplyRasterizerDiscard_idle:
  "rasterizer_discard (cur_state w) = rasterizer_discard this \<Longrightarrow> ApplyRasterizerDiscard this w = w"
  by (simp add: ApplyRasterizerDiscard_def Enable_cap_value_def UpdateValue_def emit_def Let_def)

lemma ApplyColorMask_cur:
  assumes "length (color_mask (cur_state w)) = NumRenderTargets Z" "length (color_mask this) = NumRenderTargets Z"
  shows "cur_state (ApplyColorMask Z this w) = (cur_state w)\<lparr>color_mask := color_mask this\<rparr>"
proof -
  have "for_slots (NumRenderTargets Z) ColorMaskSlot (color_mask (cur_state w)) (color_mask this) =
      (color_mask this, concat (map (\<lambda>i. snd (ColorMaskSlot i (color_mask (cur_state w) ! i) (color_mask this ! i))) [0..<NumRenderTargets Z]))"
    by (rule for_slots_stores) (simp_all add: assms ColorMaskSlot_fst)
  then show ?thesis
    using assms by (simp add: ApplyColorMask_def emit_def Let_def)
qed

lemma ApplyColorMask_idle:
  assumes "length (color_mask this) = NumRenderTargets Z" "color_mask (cur_state w) = color_mask this"
  shows "ApplyColorMask Z this w = w"
proof -
  have "for_slots (NumRenderTargets Z) ColorMaskSlot (color_mask this) (color_mask this) = (color_mask this, [])"
    by (rule for_slots_idle) (simp_all add: assms ColorMaskSlot_idle)
  then show ?thesis
    using assms by (simp add: ApplyColorMask_def emit_def Let_def)
qed

lemma ApplyStencilTest_idle:
  "stencil (cur_state w) = stencil this \<Longrightarrow> ApplyStencilTest this w = w"
  by (simp add: ApplyStencilTest_def Enable_cap_value_def UpdateValue_def emit_def Let_def ConfigStencil_idle)

lemma ApplyTextures_cur:
  assumes "length (textures (cur_state w)) = length (textures this)"
  shows "cur_state (ApplyTextures this w) = (cur_state w)\<lparr>textures := textures this\<rparr>"
proof -
  have "for_slots (length (textures this)) TextureSlot (textures (cur_state w)) (textures this) =
      (textures this, concat (map (\<lambda>i. snd (TextureSlot i (textures (cur_state w) ! i) (textures this ! i))) [0..<length (textures this)]))"
    by (rule for_slots_stores) (simp_all add: assms TextureSlot_eq)
  then show ?thesis
    using assms by (simp add: ApplyTextures_def emit_def Let_def)
qed

lemma ApplyTextures_idle:
  assumes "textures (cur_state w) = textures this"
  shows "ApplyTextures this w = w"
proof -
  have "for_slots (length (textures this)) TextureSlot (textures this) (textures this) = (textures this, [])"
    by (rule for_slots_idle) (simp_all add: assms TextureSlot_eq)
  then show ?thesis
    using assms by (simp add: ApplyTextures_def emit_def Let_def)
qed

lemma ApplySamplers_cur:
  assumes "length (samplers (cur_state w)) = length (samplers this)"
  shows "cur_state (ApplySamplers this w) = (cur_state w)\<lparr>samplers := samplers this\<rparr>"
proof -
  have "for_slots (length (samplers this)) SamplerSlot (samplers (cur_state w)) (samplers this) =
      (samplers this, concat (map (\<lambda>i. snd (SamplerSlot i (samplers (cur_state w) ! i) (samplers this ! i))) [0..<length (samplers this)]))"
    by (rule for_slots_stores) (simp_all add: assms SamplerSlot_eq)
  then show ?thesis
    using assms by (simp add: ApplySamplers_def emit_def Let_def)
qed

lemma ApplySamplers_idle:
  assumes "samplers (cur_state w) = samplers this"
  shows "ApplySamplers this w = w"
proof -
  have "for_slots (length (samplers this)) SamplerSlot (samplers this) (samplers this) = (samplers this, [])"
    by (rule for_slots_idle) (simp_all add: assms SamplerSlot_eq)
  then show ?thesis
    using assms by (simp add: ApplySamplers_def emit_def Let_def)
qed

lemma ApplyClipControl_cur:
  "cur_state (ApplyClipControl this w) = (cur_state w)\<lparr>clip_control := clip_control this\<rparr>"
  by (cases "clip_control this", cases "clip_control (cur_state w)")
     (simp add: ApplyClipControl_def UpdateTie_def emit_def Let_def)

lemma ApplyClipControl_idle:
  "clip_control (cur_state w) = clip_control this \<Longrightarrow> ApplyClipControl this w = w"
  by (simp add: ApplyClipControl_def UpdateTie_def emit_def Let_def)

lemma ApplyRenderBuffer_cur:
  "cur_state (ApplyRenderBuffer this w) = (cur_state w)\<lparr>renderbuffer := renderbuffer this\<rparr>"
  by (simp add: ApplyRenderBuffer_def emit_def Let_def)

lemma ApplyRenderBuffer_idle:
  "renderbuffer (cur_state w) = renderbuffer this \<Longrightarrow> ApplyRenderBuffer this w = w"
  by (simp add: ApplyRenderBuffer_def emit_def Let_def)


lemma Stencil_all_fields:
  "(s :: Stencil)\<lparr>test_enabled := test_enabled t, front := front t, back_face := back_face t\<rparr> = t"
  by (cases s, cases t) simp

lemma ApplyStencilTest_cur:
  "cur_state (ApplyStencilTest this w) = (cur_state w)\<lparr>stencil := stencil this\<rparr>"
proof -
  obtain out1 where a: "ConfigStencil GL_FRONT (front (stencil this)) (front (stencil (cur_state w))) =
      (front (stencil this), out1)"
    using ConfigStencil_fst [of GL_FRONT "front (stencil this)" "front (stencil (cur_state w))"]
    by (cases "ConfigStencil GL_FRONT (front (stencil this)) (front (stencil (cur_state w)))") simp
  obtain out2 where b: "ConfigStencil GL_BACK (back_face (stencil this)) (back_face (stencil (cur_state w))) =
      (back_face (stencil this), out2)"
    using ConfigStencil_fst [of GL_BACK "back_face (stencil this)" "back_face (stencil (cur_state w))"]
    by (cases "ConfigStencil GL_BACK (back_face (stencil this)) (back_face (stencil (cur_state w)))") simp
  show ?thesis
    by (simp add: ApplyStencilTest_def Enable_cap_value_def UpdateValue_def emit_def Let_def a b
        Stencil_all_fields)
qed

section \<open>UpdateArray\<close>


lemma UpdateArray_fold:
  assumes len: "length new_values = length current_values"
  shows "n \<le> length current_values \<Longrightarrow>
    \<exists>first lasti.
      fold (UpdateArray_step new_values) [0..<n] (current_values, None, 0) =
        (take n new_values @ drop n current_values, first, lasti) \<and>
      (case first of
         None \<Rightarrow> (\<forall>i<n. current_values ! i = new_values ! i)
       | Some f \<Rightarrow> f \<le> lasti \<and> lasti < n \<and>
           current_values ! f \<noteq> new_values ! f \<and> current_values ! lasti \<noteq> new_values ! lasti \<and>
           (\<forall>i<f. current_values ! i = new_values ! i) \<and>
           (\<forall>i. lasti < i \<and> i < n \<longrightarrow> current_values ! i = new_values ! i))"
proof (induction n)
  case 0
  then show ?case by simp
next
  case (Suc n)
  then have n: "n < length current_values" by simp
  with Suc.IH obtain first lasti where
    st: "fold (UpdateArray_step new_values) [0..<n] (current_values, None, 0) =
        (take n new_values @ drop n current_values, first, lasti)"
    and inv: "case first of
         None \<Rightarrow> (\<forall>i<n. current_values ! i = new_values ! i)
       | Some f \<Rightarrow> f \<le> lasti \<and> lasti < n \<and>
           current_values ! f \<noteq> new_values ! f \<and> current_values ! lasti \<noteq> new_values ! lasti \<and>
           (\<forall>i<f. current_values ! i = new_values ! i) \<and>
           (\<forall>i. lasti < i \<and> i < n \<longrightarrow> current_values ! i = new_values ! i)"
    by auto
  have nth: "(take n new_values @ drop n current_values) ! n = current_values ! n"
    using n len by (simp add: nth_append)
  have upd: "(take n new_values @ drop n current_values)[n := new_values ! n] =
      take (Suc n) new_values @ drop (Suc n) current_values"
    using n len by (simp add: list_update_append take_Suc_conv_app_nth Cons_nth_drop_Suc [symmetric])
  have step: "fold (UpdateArray_step new_values) [0..<Suc n] (current_values, None, 0) =
      UpdateArray_step new_values n (take n new_values @ drop n current_values, first, lasti)"
    by (simp add: st)
  show ?case
  proof (cases "current_values ! n = new_values ! n")
    case True
    then have "UpdateArray_step new_values n (take n new_values @ drop n current_values, first, lasti) =
        (take (Suc n) new_values @ drop (Suc n) current_values, first, lasti)"
      by (simp add: UpdateArray_step_def UpdateValue_def nth upd)
    moreover have "case first of
         None \<Rightarrow> (\<forall>i<Suc n. current_values ! i = new_values ! i)
       | Some f \<Rightarrow> f \<le> lasti \<and> lasti < Suc n \<and>
           current_values ! f \<noteq> new_values ! f \<and> current_values ! lasti \<noteq> new_values ! lasti \<and>
           (\<forall>i<f. current_values ! i = new_values ! i) \<and>
           (\<forall>i. lasti < i \<and> i < Suc n \<longrightarrow> current_values ! i = new_values ! i)"
      using inv True by (auto split: option.splits simp: less_Suc_eq)
    ultimately show ?thesis
      unfolding step by blast
  next
    case False
    then have "UpdateArray_step new_values n (take n new_values @ drop n current_values, first, lasti) =
        (take (Suc n) new_values @ drop (Suc n) current_values,
         (if first = None then Some n else first), n)"
      by (simp add: UpdateArray_step_def UpdateValue_def nth upd)
    moreover have "case (if first = None then Some n else first) of
         None \<Rightarrow> (\<forall>i<Suc n. current_values ! i = new_values ! i)
       | Some f \<Rightarrow> f \<le> n \<and> n < Suc n \<and>
           current_values ! f \<noteq> new_values ! f \<and> current_values ! n \<noteq> new_values ! n \<and>
           (\<forall>i<f. current_values ! i = new_values ! i) \<and>
           (\<forall>i. n < i \<and> i < Suc n \<longrightarrow> current_values ! i = new_values ! i)"
      using inv False by (auto split: option.splits)
    ultimately show ?thesis
      unfolding step by blast
  qed
qed

text \<open>\<open>UpdateArray\<close> stores the new array; it reports nothing when no slot differs and
  otherwise the first differing index and the length of the range up to the last one.\<close>

lemma UpdateArray_None:
  assumes "length new_values = length current_values"
    and "\<forall>i<length current_values. current_values ! i = new_values ! i"
  shows "UpdateArray current_values new_values = (new_values, None)"
proof -
  from UpdateArray_fold [OF assms(1), of "length current_values"] obtain first lasti where
    st: "fold (UpdateArray_step new_values) [0..<length current_values] (current_values, None, 0) =
        (new_values, first, lasti)"
    and inv: "case first of
         None \<Rightarrow> True
       | Some f \<Rightarrow> f \<le> lasti \<and> lasti < length current_values \<and> current_values ! f \<noteq> new_values ! f"
    using assms(1) by (auto split: option.splits)
  from inv assms(2) have "first = None"
    by (cases first) auto
  with st show ?thesis
    by (simp add: UpdateArray_def)
qed

lemma UpdateArray_Some:
  assumes "length new_values = length current_values"
    and "first \<le> lasti" "lasti < length current_values"
    and "current_values ! first \<noteq> new_values ! first" "current_values ! lasti \<noteq> new_values ! lasti"
    and "\<forall>i<length current_values. i < first \<or> lasti < i \<longrightarrow> current_values ! i = new_values ! i"
  shows "UpdateArray current_values new_values =
    (new_values, Some (of_nat first, of_nat (lasti - first + 1)))"
proof -
  from UpdateArray_fold [OF assms(1), of "length current_values"] obtain f l where
    st: "fold (UpdateArray_step new_values) [0..<length current_values] (current_values, None, 0) =
        (new_values, f, l)"
    and inv: "case f of
         None \<Rightarrow> (\<forall>i<length current_values. current_values ! i = new_values ! i)
       | Some f' \<Rightarrow> f' \<le> l \<and> l < length current_values \<and>
           current_values ! f' \<noteq> new_values ! f' \<and> current_values ! l \<noteq> new_values ! l \<and>
           (\<forall>i<f'. current_values ! i = new_values ! i) \<and>
           (\<forall>i. l < i \<and> i < length current_values \<longrightarrow> current_values ! i = new_values ! i)"
    using assms(1) by auto
  from inv assms(3,5) obtain f' where f: "f = Some f'"
    by (cases f) auto
  from inv f have i1: "f' \<le> l" "l < length current_values"
      "current_values ! f' \<noteq> new_values ! f'" "current_values ! l \<noteq> new_values ! l"
      "\<forall>i<f'. current_values ! i = new_values ! i"
      "\<forall>i. l < i \<and> i < length current_values \<longrightarrow> current_values ! i = new_values ! i"
    by simp_all
  have "f' = first"
  proof (rule ccontr)
    assume "f' \<noteq> first"
    then consider "f' < first" | "first < f'" by linarith
    then show False
    proof cases
      case 1
      with assms(2,3,6) i1(1,2,3) show False by (metis le_less_trans)
    next
      case 2
      with i1(5) assms(4) show False by blast
    qed
  qed
  moreover have "l = lasti"
  proof (rule ccontr)
    assume "l \<noteq> lasti"
    then consider "l < lasti" | "lasti < l" by linarith
    then show False
    proof cases
      case 1
      with i1(6) assms(3,5) show False by blast
    next
      case 2
      with assms(6) i1(2,4) show False by blast
    qed
  qed
  ultimately show ?thesis
    using st f by (simp add: UpdateArray_def)
qed


lemma UpdateArray_fst:
  assumes "length new_values = length current_values"
  shows "fst (UpdateArray current_values new_values) = new_values"
proof -
  from UpdateArray_fold [OF assms, of "length current_values"] obtain first lasti where
    "fold (UpdateArray_step new_values) [0..<length current_values] (current_values, None, 0) =
        (new_values, first, lasti)"
    using assms by auto
  then show ?thesis
    by (cases first) (simp_all add: UpdateArray_def)
qed

lemma ApplyImages_cur:
  assumes "length (images (cur_state w)) = length (images this)"
  shows "cur_state (ApplyImages this w) = (cur_state w)\<lparr>images := images this\<rparr>"
proof -
  have "fst (UpdateArray (images (cur_state w)) (images this)) = images this"
    by (rule UpdateArray_fst) (simp add: assms)
  then show ?thesis
    by (cases "UpdateArray (images (cur_state w)) (images this)")
       (simp add: ApplyImages_def emit_def Let_def)
qed

lemma ApplyImages_idle:
  assumes "images (cur_state w) = images this"
  shows "ApplyImages this w = w"
proof -
  have "UpdateArray (images this) (images this) = (images this, None)"
    by (rule UpdateArray_None) simp_all
  then show ?thesis
    using assms by (simp add: ApplyImages_def emit_def Let_def)
qed

lemma ApplyViewport_cur:
  assumes "length (viewports (cur_state w)) = NumViewports Z"
  shows "cur_state (ApplyViewport Z this w) =
    (cur_state w)\<lparr>viewports :=
       map (\<lambda>i. fst (ViewportSlot i (viewports (cur_state w) ! i) (viewports this ! i)))
         [0..<NumViewports Z]\<rparr>"
  by (simp add: ApplyViewport_def emit_def Let_def for_slots_eq [OF assms [symmetric]])

lemma ApplyViewport_idle:
  assumes "length (viewports (cur_state w)) = NumViewports Z"
    and "\<And>i. i < NumViewports Z \<Longrightarrow>
      viewport_applied (viewports (cur_state w) ! i) (viewports this ! i) \<and>
      \<not> is_nan (depth_range_near (viewports this ! i)) \<and>
      \<not> is_nan (depth_range_far (viewports this ! i))"
  shows "ApplyViewport Z this w = w"
proof -
  have "for_slots (NumViewports Z) ViewportSlot (viewports (cur_state w)) (viewports this) =
      (viewports (cur_state w), [])"
    by (rule for_slots_idle) (simp_all add: assms ViewportSlot_idle)
  then show ?thesis
    by (simp add: ApplyViewport_def emit_def Let_def)
qed

lemma ApplyTargetBlending_fold:
  "n \<le> length (blend (cur_state w)) \<Longrightarrow>
   fold (\<lambda>target. ApplyTargetBlending target force this) [0..<n] w =
   w\<lparr>cur_state := (cur_state w)\<lparr>blend :=
        map (\<lambda>i. fst (TargetBlending force i (blend (cur_state w) ! i) (blend this ! i))) [0..<n] @
        drop n (blend (cur_state w))\<rparr>,
      calls := calls w @
        concat (map (\<lambda>i. snd (TargetBlending force i (blend (cur_state w) ! i) (blend this ! i))) [0..<n])\<rparr>"
proof (induction n)
  case 0
  then show ?case by simp
next
  case (Suc n)
  then have n: "n < length (blend (cur_state w))" by simp
  let ?f = "\<lambda>i. fst (TargetBlending force i (blend (cur_state w) ! i) (blend this ! i))"
  have nth: "(map ?f [0..<n] @ drop n (blend (cur_state w))) ! n = blend (cur_state w) ! n"
    using n by (simp add: nth_append)
  have upd: "(map ?f [0..<n] @ drop n (blend (cur_state w)))[n := v] =
      map ?f [0..<n] @ v # drop (Suc n) (blend (cur_state w))" for v
    using n by (simp add: list_update_append Cons_nth_drop_Suc [symmetric])
  show ?case
    using Suc.IH n
    by (cases "TargetBlending force n (blend (cur_state w) ! n) (blend this ! n)")
       (simp add: ApplyTargetBlending_def emit_def Let_def nth upd)
qed

lemma IndependantBlend_all_fields:
  "(s :: IndependantBlend)\<lparr>IndependantBlend.enabled := IndependantBlend.enabled t\<rparr> = t"
  by (cases s, cases t) simp

lemma ApplyBlending_cur:
  assumes "length (blend (cur_state w)) = NumRenderTargets Z" "length (blend this) = NumRenderTargets Z"
  shows "cur_state (ApplyBlending Z this w) =
    (cur_state w)\<lparr>blend := (if IndependantBlend.enabled (independant_blend this) then blend this
                             else (blend (cur_state w))[0 := blend this ! 0]),
                  independant_blend := independant_blend this\<rparr>"
proof (cases "IndependantBlend.enabled (independant_blend this)")
  case True
  have "map (\<lambda>i. blend this ! i) [0..<NumRenderTargets Z] = blend this"
    using map_nth [of "blend this"] by (simp only: assms(2))
  then show ?thesis
    using True assms
    by (simp add: ApplyBlending_def Let_def ApplyTargetBlending_fold TargetBlending_fst
        IndependantBlend_all_fields)
next
  case False
  obtain out where "GlobalBlending (blend (cur_state w) ! 0) (blend this ! 0) = (blend this ! 0, out)"
    using GlobalBlending_fst [of "blend (cur_state w) ! 0" "blend this ! 0"]
    by (cases "GlobalBlending (blend (cur_state w) ! 0) (blend this ! 0)") simp
  then show ?thesis
    using False
    by (simp add: ApplyBlending_def Let_def ApplyGlobalBlending_def emit_def IndependantBlend_all_fields)
qed

lemma ApplyBlending_idle:
  assumes "length (blend (cur_state w)) = NumRenderTargets Z"
    and "independant_blend (cur_state w) = independant_blend this"
    and "if IndependantBlend.enabled (independant_blend this) then blend (cur_state w) = blend this
         else blend (cur_state w) ! 0 = blend this ! 0"
  shows "ApplyBlending Z this w = w"
proof (cases "IndependantBlend.enabled (independant_blend this)")
  case True
  with assms(3) have eq: "blend (cur_state w) = blend this" by simp
  have "map (\<lambda>i. blend this ! i) [0..<NumRenderTargets Z] = blend this"
    using map_nth [of "blend this"] assms(1) by (simp add: eq)
  then show ?thesis
    using True assms(1,2)
    by (simp add: ApplyBlending_def Let_def ApplyTargetBlending_fold TargetBlending_idle eq)
next
  case False
  with assms(3) have eq: "blend (cur_state w) ! 0 = blend this ! 0" by simp
  show ?thesis
    using False assms(2)
    by (simp add: ApplyBlending_def Let_def ApplyGlobalBlending_def emit_def GlobalBlending_idle eq [symmetric])
qed

section \<open>Apply as a whole\<close>


lemma Draw_all_fields:
  "(s :: Draw)\<lparr>read_framebuffer := read_framebuffer t, draw_framebuffer := draw_framebuffer t,
     shader_program := shader_program t, program_pipeline := program_pipeline t\<rparr> = t"
  by (cases s, cases t) simp

lemma Apply_cur:
  assumes "wf_state Z this" "wf_state Z (cur_state w)"
  shows "cur_state (Apply Z this w) =
    (cur_state w)\<lparr>
       draw := draw this,
       clip_distance := clip_distance this,
       fragment_color_clamp := fragment_color_clamp this,
       multisample_control := multisample_control this,
       rasterizer_discard := rasterizer_discard this,
       color_mask := color_mask this,
       viewports := map (\<lambda>i. fst (ViewportSlot i (viewports (cur_state w) ! i) (viewports this ! i)))
                      [0..<NumViewports Z],
       stencil := stencil this,
       blend := (if IndependantBlend.enabled (independant_blend this) then blend this
                 else (blend (cur_state w))[0 := blend this ! 0]),
       independant_blend := independant_blend this,
       textures := textures this,
       samplers := samplers this,
       images := images this,
       clip_control := clip_control this,
       renderbuffer := renderbuffer this\<rparr>"
  using assms
  by (simp add: Apply_def Let_def wf_state_def
      ApplyFramebufferState_cur ApplyShaderProgram_cur ApplyProgramPipeline_cur
      ApplyClipDistances_cur ApplyFragmentColorClamp_cur ApplyMultisample_cur
      ApplyRasterizerDiscard_cur ApplyColorMask_cur ApplyViewport_cur ApplyStencilTest_cur
      ApplyBlending_cur ApplyTextures_cur ApplySamplers_cur ApplyImages_cur ApplyClipControl_cur
      ApplyRenderBuffer_cur Draw_all_fields)

lemma Apply_idle:
  assumes "wf_state Z this" "wf_state Z (cur_state w)"
    and "draw (cur_state w) = draw this"
    and "clip_distance (cur_state w) = clip_distance this"
    and "fragment_color_clamp (cur_state w) = fragment_color_clamp this"
    and "multisample_control (cur_state w) = multisample_control this"
    and "rasterizer_discard (cur_state w) = rasterizer_discard this"
    and "color_mask (cur_state w) = color_mask this"
    and "\<And>i. i < NumViewports Z \<Longrightarrow>
      viewport_applied (viewports (cur_state w) ! i) (viewports this ! i) \<and>
      \<not> is_nan (depth_range_near (viewports this ! i)) \<and>
      \<not> is_nan (depth_range_far (viewports this ! i))"
    and "stencil (cur_state w) = stencil this"
    and "independant_blend (cur_state w) = independant_blend this"
    and "if IndependantBlend.enabled (independant_blend this) then blend (cur_state w) = blend this
         else blend (cur_state w) ! 0 = blend this ! 0"
    and "textures (cur_state w) = textures this"
    and "samplers (cur_state w) = samplers this"
    and "images (cur_state w) = images this"
    and "clip_control (cur_state w) = clip_control this"
    and "renderbuffer (cur_state w) = renderbuffer this"
  shows "Apply Z this w = w"
proof -
  have 1: "ApplyFramebufferState this w = w"
    by (rule ApplyFramebufferState_idle) (simp_all add: assms(3))
  have 2: "ApplyShaderProgram this w = w"
    by (rule ApplyShaderProgram_idle) (simp add: assms(3))
  have 3: "ApplyProgramPipeline this w = w"
    by (rule ApplyProgramPipeline_idle) (simp add: assms(3))
  have 4: "ApplyClipDistances this w = w"
    by (rule ApplyClipDistances_idle) (rule assms(4))
  have 5: "ApplyFragmentColorClamp this w = w"
    by (rule ApplyFragmentColorClamp_idle) (rule assms(5))
  have 6: "ApplyMultisample this w = w"
    by (rule ApplyMultisample_idle) (rule assms(6))
  have 7: "ApplyRasterizerDiscard this w = w"
    by (rule ApplyRasterizerDiscard_idle) (rule assms(7))
  have 8: "ApplyColorMask Z this w = w"
    using assms(1) by (intro ApplyColorMask_idle assms(8)) (simp add: wf_state_def)
  have 9: "ApplyViewport Z this w = w"
    using assms(2) by (intro ApplyViewport_idle assms(9)) (simp_all add: wf_state_def)
  have 10: "ApplyStencilTest this w = w"
    by (rule ApplyStencilTest_idle) (rule assms(10))
  have 11: "ApplyBlending Z this w = w"
    using assms(2) by (intro ApplyBlending_idle assms(11,12)) (simp add: wf_state_def)
  have 12: "ApplyTextures this w = w"
    by (rule ApplyTextures_idle) (rule assms(13))
  have 13: "ApplySamplers this w = w"
    by (rule ApplySamplers_idle) (rule assms(14))
  have 14: "ApplyImages this w = w"
    by (rule ApplyImages_idle) (rule assms(15))
  have 15: "ApplyClipControl this w = w"
    by (rule ApplyClipControl_idle) (rule assms(16))
  have 16: "ApplyRenderBuffer this w = w"
    by (rule ApplyRenderBuffer_idle) (rule assms(17))
  show ?thesis
    by (simp only: Apply_def Let_def 1 2 3 4 5 6 7 8 9 10 11 12 13 14 15 16)
qed

section \<open>The calls each step issues\<close>


lemma issued_append: "calls (step w) = calls w @ out \<Longrightarrow> issued step w = out"
  by (simp add: issued_def)

lemma ApplyFramebufferState_calls:
  "calls (ApplyFramebufferState this w) = calls w @
     (if read_framebuffer (draw (cur_state w)) \<noteq> read_framebuffer (draw this)
      then [glBindFramebuffer GL_READ_FRAMEBUFFER (read_framebuffer (draw this))] else []) @
     (if draw_framebuffer (draw (cur_state w)) \<noteq> draw_framebuffer (draw this)
      then [glBindFramebuffer GL_DRAW_FRAMEBUFFER (draw_framebuffer (draw this))] else [])"
  by (simp add: ApplyFramebufferState_def UpdateValue_def emit_def Let_def)

lemma ApplyShaderProgram_calls:
  "calls (ApplyShaderProgram this w) = calls w @
     (if shader_program (draw (cur_state w)) \<noteq> shader_program (draw this)
      then [glUseProgram (shader_program (draw this))] else [])"
  by (simp add: ApplyShaderProgram_def UpdateValue_def emit_def Let_def)

lemma ApplyProgramPipeline_calls:
  "calls (ApplyProgramPipeline this w) = calls w @
     (if program_pipeline (draw (cur_state w)) \<noteq> program_pipeline (draw this)
      then [glBindProgramPipeline (program_pipeline (draw this))] else [])"
  by (simp add: ApplyProgramPipeline_def UpdateValue_def emit_def Let_def)

lemma ApplyClipDistances_calls:
  assumes "length (clip_distance (cur_state w)) = length (clip_distance this)"
  shows "calls (ApplyClipDistances this w) = calls w @
     concat (map (\<lambda>i. snd (ClipDistanceSlot i (clip_distance (cur_state w) ! i) (clip_distance this ! i)))
       [0..<length (clip_distance this)])"
  by (simp add: ApplyClipDistances_def emit_def Let_def for_slots_eq [OF assms [symmetric]])

lemma ApplyFragmentColorClamp_calls:
  "calls (ApplyFragmentColorClamp this w) = calls w @
     (if FragmentColorClamp.enabled (fragment_color_clamp (cur_state w)) \<noteq>
         FragmentColorClamp.enabled (fragment_color_clamp this)
      then [glClampColor GL_CLAMP_FRAGMENT_COLOR_ARB
              (if FragmentColorClamp.enabled (fragment_color_clamp this) then GL_TRUE else GL_FALSE)]
      else [])"
  by (simp add: ApplyFragmentColorClamp_def UpdateValue_def emit_def Let_def)

lemma ApplyMultisample_calls:
  "calls (ApplyMultisample this w) = calls w @
     (if alpha_to_coverage (multisample_control (cur_state w)) \<noteq> alpha_to_coverage (multisample_control this)
      then Enable_cap GL_SAMPLE_ALPHA_TO_COVERAGE (alpha_to_coverage (multisample_control this)) else []) @
     (if alpha_to_one (multisample_control (cur_state w)) \<noteq> alpha_to_one (multisample_control this)
      then Enable_cap GL_SAMPLE_ALPHA_TO_ONE (alpha_to_one (multisample_control this)) else [])"
  by (simp add: ApplyMultisample_def Enable_cap_value_def UpdateValue_def emit_def Let_def)

lemma ApplyRasterizerDiscard_calls:
  "calls (ApplyRasterizerDiscard this w) = calls w @
     (if rasterizer_discard (cur_state w) \<noteq> rasterizer_discard this
      then Enable_cap GL_RASTERIZER_DISCARD (rasterizer_discard this) else [])"
  by (simp add: ApplyRasterizerDiscard_def Enable_cap_value_def UpdateValue_def emit_def Let_def)

lemma ApplyColorMask_calls:
  assumes "length (color_mask (cur_state w)) = NumRenderTargets Z"
  shows "calls (ApplyColorMask Z this w) = calls w @
     concat (map (\<lambda>i. snd (ColorMaskSlot i (color_mask (cur_state w) ! i) (color_mask this ! i)))
       [0..<NumRenderTargets Z])"
  by (simp add: ApplyColorMask_def emit_def Let_def for_slots_eq [OF assms [symmetric]])

lemma ApplyViewport_calls:
  assumes "length (viewports (cur_state w)) = NumViewports Z"
  shows "calls (ApplyViewport Z this w) = calls w @
     concat (map (\<lambda>i. snd (ViewportSlot i (viewports (cur_state w) ! i) (viewports this ! i)))
       [0..<NumViewports Z])"
  by (simp add: ApplyViewport_def emit_def Let_def for_slots_eq [OF assms [symmetric]])

lemma ApplyStencilTest_calls:
  "calls (ApplyStencilTest this w) = calls w @
     (if test_enabled (stencil (cur_state w)) \<noteq> test_enabled (stencil this)
      then Enable_cap GL_STENCIL_TEST (test_enabled (stencil this)) else []) @
     snd (ConfigStencil GL_FRONT (front (stencil this)) (front (stencil (cur_state w)))) @
     snd (ConfigStencil GL_BACK (back_face (stencil this)) (back_face (stencil (cur_state w))))"
  by (simp add: ApplyStencilTest_def Enable_cap_value_def UpdateValue_def emit_def Let_def
      split: prod.split)

lemma ApplyBlending_calls:
  assumes "length (blend (cur_state w)) = NumRenderTargets Z"
  shows "calls (ApplyBlending Z this w) = calls w @
     (if IndependantBlend.enabled (independant_blend this)
      then concat (map (\<lambda>t. snd (TargetBlending
                (IndependantBlend.enabled (independant_blend this) \<noteq>
                 IndependantBlend.enabled (independant_blend (cur_state w)))
                t (blend (cur_state w) ! t) (blend this ! t)))
             [0..<NumRenderTargets Z])
      else snd (GlobalBlending (blend (cur_state w) ! 0) (blend this ! 0)))"
  using assms
  by (simp add: ApplyBlending_def Let_def ApplyTargetBlending_fold ApplyGlobalBlending_def emit_def
      split: prod.split)

lemma ApplyTextures_calls:
  assumes "length (textures (cur_state w)) = length (textures this)"
  shows "calls (ApplyTextures this w) = calls w @
     concat (map (\<lambda>i. if textures (cur_state w) ! i \<noteq> textures this ! i \<and> textures this ! i \<noteq> 0
                       then [glBindTextureUnit (of_nat i) (textures this ! i)] else [])
       [0..<length (textures this)])"
  by (simp add: ApplyTextures_def emit_def Let_def for_slots_eq [OF assms [symmetric]] TextureSlot_eq)

lemma ApplySamplers_calls:
  assumes "length (samplers (cur_state w)) = length (samplers this)"
  shows "calls (ApplySamplers this w) = calls w @
     concat (map (\<lambda>i. if samplers (cur_state w) ! i \<noteq> samplers this ! i
                       then [glBindSampler (of_nat i) (samplers this ! i)] else [])
       [0..<length (samplers this)])"
  by (simp add: ApplySamplers_def emit_def Let_def for_slots_eq [OF assms [symmetric]] SamplerSlot_eq)

lemma ApplyImages_calls:
  "calls (ApplyImages this w) = calls w @
     (case snd (UpdateArray (images (cur_state w)) (images this)) of
        None \<Rightarrow> []
      | Some (first, count) \<Rightarrow>
          [glBindImageTextures first count (take (unat count) (drop (unat first) (images this)))])"
  by (simp add: ApplyImages_def emit_def Let_def split: prod.split)

lemma ApplyClipControl_calls:
  "calls (ApplyClipControl this w) = calls w @
     (if (origin (clip_control (cur_state w)), depth_mode (clip_control (cur_state w))) \<noteq>
         (origin (clip_control this), depth_mode (clip_control this))
      then [glClipControl (origin (clip_control this)) (depth_mode (clip_control this))] else [])"
  by (simp add: ApplyClipControl_def UpdateTie_def emit_def Let_def)

lemma ApplyRenderBuffer_calls:
  "calls (ApplyRenderBuffer this w) = calls w @
     (if renderbuffer (cur_state w) \<noteq> renderbuffer this
      then [glBindRenderbuffer GL_RENDERBUFFER (renderbuffer this)] else [])"
  by (simp add: ApplyRenderBuffer_def emit_def Let_def)


lemmas step_calls =
  ApplyFramebufferState_calls ApplyShaderProgram_calls ApplyProgramPipeline_calls
  ApplyClipDistances_calls ApplyFragmentColorClamp_calls ApplyMultisample_calls
  ApplyRasterizerDiscard_calls ApplyColorMask_calls ApplyViewport_calls ApplyStencilTest_calls
  ApplyBlending_calls ApplyTextures_calls ApplySamplers_calls ApplyImages_calls
  ApplyClipControl_calls ApplyRenderBuffer_calls

lemmas step_cur =
  ApplyFramebufferState_cur ApplyShaderProgram_cur ApplyProgramPipeline_cur
  ApplyClipDistances_cur ApplyFragmentColorClamp_cur ApplyMultisample_cur
  ApplyRasterizerDiscard_cur ApplyColorMask_cur ApplyViewport_cur ApplyStencilTest_cur
  ApplyBlending_cur ApplyTextures_cur ApplySamplers_cur ApplyImages_cur ApplyClipControl_cur
  ApplyRenderBuffer_cur

lemma Apply_calls:
  assumes "wf_state Z this" "wf_state Z (cur_state w)"
  shows "calls (Apply Z this w) = calls w @
    issued (ApplyFramebufferState this) w @ issued (ApplyShaderProgram this) w @
    issued (ApplyProgramPipeline this) w @ issued (ApplyClipDistances this) w @
    issued (ApplyFragmentColorClamp this) w @ issued (ApplyMultisample this) w @
    issued (ApplyRasterizerDiscard this) w @ issued (ApplyColorMask Z this) w @
    issued (ApplyViewport Z this) w @ issued (ApplyStencilTest this) w @
    issued (ApplyBlending Z this) w @ issued (ApplyTextures this) w @
    issued (ApplySamplers this) w @ issued (ApplyImages this) w @
    issued (ApplyClipControl this) w @ issued (ApplyRenderBuffer this) w"
  using assms
  by (simp add: Apply_def Let_def wf_state_def issued_def step_calls step_cur)


text \<open>Texture and image binds come from \<open>ApplyTextures\<close> and \<open>ApplyImages\<close> only.\<close>

lemma Enable_cap_no_bind: "filter is_texture_bind (Enable_cap cap e) = [] \<and> filter is_image_bind (Enable_cap cap e) = []"
  by (simp add: Enable_cap_def)

lemma Enable_index_no_bind:
  "filter is_texture_bind (Enable_index cap i e) = [] \<and> filter is_image_bind (Enable_index cap i e) = []"
  by (simp add: Enable_index_def)

lemma ClipDistanceSlot_no_bind:
  "filter is_texture_bind (snd (ClipDistanceSlot i c u)) = [] \<and>
   filter is_image_bind (snd (ClipDistanceSlot i c u)) = []"
  by (simp add: ClipDistanceSlot_def Enable_cap_value_def UpdateValue_def Enable_cap_def)

lemma ColorMaskSlot_no_bind:
  "filter is_texture_bind (snd (ColorMaskSlot i c u)) = [] \<and>
   filter is_image_bind (snd (ColorMaskSlot i c u)) = []"
  by (simp add: ColorMaskSlot_def)

lemma ViewportSlot_no_bind:
  "filter is_texture_bind (snd (ViewportSlot i c u)) = [] \<and>
   filter is_image_bind (snd (ViewportSlot i c u)) = []"
  by (simp add: ViewportSlot_def Enable_index_value_def UpdateValue_def Enable_index_def Let_def
      split: prod.split)

lemma ConfigStencil_no_bind:
  "filter is_texture_bind (snd (ConfigStencil face config current)) = [] \<and>
   filter is_image_bind (snd (ConfigStencil face config current)) = []"
  by (simp add: ConfigStencil_def Let_def split: prod.split)

lemma GlobalBlending_no_bind:
  "filter is_texture_bind (snd (GlobalBlending c u)) = [] \<and>
   filter is_image_bind (snd (GlobalBlending c u)) = []"
  by (simp add: GlobalBlending_def Enable_cap_value_def UpdateValue_def Enable_cap_def Let_def
      split: prod.split)

lemma TargetBlending_no_bind:
  "filter is_texture_bind (snd (TargetBlending force t c u)) = [] \<and>
   filter is_image_bind (snd (TargetBlending force t c u)) = []"
  by (simp add: TargetBlending_def UpdateTie_def Enable_index_def Let_def split: prod.split)

lemma filter_concat_map_none:
  "(\<And>i. filter P (f i) = []) \<Longrightarrow> filter P (concat (map f xs)) = []"
  by (induction xs) simp_all

lemma filter_concat_map_all:
  "(\<And>i. filter P (f i) = f i) \<Longrightarrow> filter P (concat (map f xs)) = concat (map f xs)"
  by (induction xs) simp_all

lemma Apply_texture_binds:
  assumes "wf_state Z this" "wf_state Z (cur_state w)"
  shows "filter is_texture_bind (issued (Apply Z this) w) = issued (ApplyTextures this) w"
proof -
  have len: "length (clip_distance (cur_state w)) = length (clip_distance this)"
    "length (color_mask (cur_state w)) = NumRenderTargets Z"
    "length (viewports (cur_state w)) = NumViewports Z"
    "length (blend (cur_state w)) = NumRenderTargets Z"
    "length (textures (cur_state w)) = length (textures this)"
    "length (samplers (cur_state w)) = length (samplers this)"
    using assms by (simp_all add: wf_state_def)
  have 1: "filter is_texture_bind (issued (ApplyFramebufferState this) w) = []"
    by (simp add: issued_def ApplyFramebufferState_calls)
  have 2: "filter is_texture_bind (issued (ApplyShaderProgram this) w) = []"
    by (simp add: issued_def ApplyShaderProgram_calls)
  have 3: "filter is_texture_bind (issued (ApplyProgramPipeline this) w) = []"
    by (simp add: issued_def ApplyProgramPipeline_calls)
  have 4: "filter is_texture_bind (issued (ApplyClipDistances this) w) = []"
    by (simp add: issued_def ApplyClipDistances_calls [OF len(1)]
        filter_concat_map_none ClipDistanceSlot_no_bind)
  have 5: "filter is_texture_bind (issued (ApplyFragmentColorClamp this) w) = []"
    by (simp add: issued_def ApplyFragmentColorClamp_calls)
  have 6: "filter is_texture_bind (issued (ApplyMultisample this) w) = []"
    by (simp add: issued_def ApplyMultisample_calls Enable_cap_no_bind)
  have 7: "filter is_texture_bind (issued (ApplyRasterizerDiscard this) w) = []"
    by (simp add: issued_def ApplyRasterizerDiscard_calls Enable_cap_no_bind)
  have 8: "filter is_texture_bind (issued (ApplyColorMask Z this) w) = []"
    by (simp add: issued_def ApplyColorMask_calls [OF len(2)]
        filter_concat_map_none ColorMaskSlot_no_bind)
  have 9: "filter is_texture_bind (issued (ApplyViewport Z this) w) = []"
    by (simp add: issued_def ApplyViewport_calls [OF len(3)]
        filter_concat_map_none ViewportSlot_no_bind)
  have 10: "filter is_texture_bind (issued (ApplyStencilTest this) w) = []"
    by (simp add: issued_def ApplyStencilTest_calls Enable_cap_no_bind ConfigStencil_no_bind)
  have 11: "filter is_texture_bind (issued (ApplyBlending Z this) w) = []"
    by (simp add: issued_def ApplyBlending_calls [OF len(4)]
        filter_concat_map_none TargetBlending_no_bind GlobalBlending_no_bind)
  have 12: "filter is_texture_bind (issued (ApplyTextures this) w) = issued (ApplyTextures this) w"
    by (simp add: issued_def ApplyTextures_calls [OF len(5)] filter_concat_map_all)
  have 13: "filter is_texture_bind (issued (ApplySamplers this) w) = []"
    by (simp add: issued_def ApplySamplers_calls [OF len(6)] filter_concat_map_none)
  have 14: "filter is_texture_bind (issued (ApplyImages this) w) = []"
    by (simp add: issued_def ApplyImages_calls split: option.split)
  have 15: "filter is_texture_bind (issued (ApplyClipControl this) w) = []"
    by (simp add: issued_def ApplyClipControl_calls)
  have 16: "filter is_texture_bind (issued (ApplyRenderBuffer this) w) = []"
    by (simp add: issued_def ApplyRenderBuffer_calls)
  show ?thesis
    by (simp only: issued_append [of "Apply Z this" w, OF Apply_calls [OF assms]] filter_append
        1 2 3 4 5 6 7 8 9 10 11 12 13 14 15 16 append_Nil append_Nil2)
qed

lemma Apply_image_binds:
  assumes "wf_state Z this" "wf_state Z (cur_state w)"
  shows "filter is_image_bind (issued (Apply Z this) w) = issued (ApplyImages this) w"
proof -
  have len: "length (clip_distance (cur_state w)) = length (clip_distance this)"
    "length (color_mask (cur_state w)) = NumRenderTargets Z"
    "length (viewports (cur_state w)) = NumViewports Z"
    "length (blend (cur_state w)) = NumRenderTargets Z"
    "length (textures (cur_state w)) = length (textures this)"
    "length (samplers (cur_state w)) = length (samplers this)"
    using assms by (simp_all add: wf_state_def)
  have 1: "filter is_image_bind (issued (ApplyFramebufferState this) w) = []"
    by (simp add: issued_def ApplyFramebufferState_calls)
  have 2: "filter is_image_bind (issued (ApplyShaderProgram this) w) = []"
    by (simp add: issued_def ApplyShaderProgram_calls)
  have 3: "filter is_image_bind (issued (ApplyProgramPipeline this) w) = []"
    by (simp add: issued_def ApplyProgramPipeline_calls)
  have 4: "filter is_image_bind (issued (ApplyClipDistances this) w) = []"
    by (simp add: issued_def ApplyClipDistances_calls [OF len(1)]
        filter_concat_map_none ClipDistanceSlot_no_bind)
  have 5: "filter is_image_bind (issued (ApplyFragmentColorClamp this) w) = []"
    by (simp add: issued_def ApplyFragmentColorClamp_calls)
  have 6: "filter is_image_bind (issued (ApplyMultisample this) w) = []"
    by (simp add: issued_def ApplyMultisample_calls Enable_cap_no_bind)
  have 7: "filter is_image_bind (issued (ApplyRasterizerDiscard this) w) = []"
    by (simp add: issued_def ApplyRasterizerDiscard_calls Enable_cap_no_bind)
  have 8: "filter is_image_bind (issued (ApplyColorMask Z this) w) = []"
    by (simp add: issued_def ApplyColorMask_calls [OF len(2)]
        filter_concat_map_none ColorMaskSlot_no_bind)
  have 9: "filter is_image_bind (issued (ApplyViewport Z this) w) = []"
    by (simp add: issued_def ApplyViewport_calls [OF len(3)]
        filter_concat_map_none ViewportSlot_no_bind)
  have 10: "filter is_image_bind (issued (ApplyStencilTest this) w) = []"
    by (simp add: issued_def ApplyStencilTest_calls Enable_cap_no_bind ConfigStencil_no_bind)
  have 11: "filter is_image_bind (issued (ApplyBlending Z this) w) = []"
    by (simp add: issued_def ApplyBlending_calls [OF len(4)]
        filter_concat_map_none TargetBlending_no_bind GlobalBlending_no_bind)
  have 12: "filter is_image_bind (issued (ApplyTextures this) w) = []"
    by (simp add: issued_def ApplyTextures_calls [OF len(5)] filter_concat_map_none)
  have 13: "filter is_image_bind (issued (ApplySamplers this) w) = []"
    by (simp add: issued_def ApplySamplers_calls [OF len(6)] filter_concat_map_none)
  have 14: "filter is_image_bind (issued (ApplyImages this) w) = issued (ApplyImages this) w"
    by (simp add: issued_def ApplyImages_calls split: option.split)
  have 15: "filter is_image_bind (issued (ApplyClipControl this) w) = []"
    by (simp add: issued_def ApplyClipControl_calls)
  have 16: "filter is_image_bind (issued (ApplyRenderBuffer this) w) = []"
    by (simp add: issued_def ApplyRenderBuffer_calls)
  show ?thesis
    by (simp only: issued_append [of "Apply Z this" w, OF Apply_calls [OF assms]] filter_append
        1 2 3 4 5 6 7 8 9 10 11 12 13 14 15 16 append_Nil append_Nil2)
qed

lemma Apply_wf:
  assumes "wf_state Z this" "wf_state Z (cur_state w)"
  shows "wf_state Z (cur_state (Apply Z this w))"
  using assms by (simp add: Apply_cur wf_state_def)

text \<open>The concrete states are well formed for \<open>example_sizes\<close>.\<close>

lemma wf_examples:
  "wf_state example_sizes example_state" "wf_state example_sizes busy_state"
  "wf_state example_sizes handle_state" "wf_state example_sizes independent_state"
  "wf_state example_sizes (cur_state example_context)"
  "wf_state example_sizes (cur_state handle_context)"
  "wf_state example_sizes (cur_state bound_context)"
  "wf_state example_sizes unbind_state"
  by (simp_all add: wf_state_def example_sizes_def example_state_def busy_state_def
      handle_state_def independent_state_def example_context_def handle_context_def
      bound_context_def unbind_state_def)

section \<open>Indices as GLuint, and the image bind\<close>

lemma unat_of_nat32: "n < 2 ^ 31 \<Longrightarrow> unat (of_nat n :: 32 word) = n"
  by (simp add: unat_of_nat)

lemma of_nat32_inj: "i < 2 ^ 31 \<Longrightarrow> j < 2 ^ 31 \<Longrightarrow> (of_nat i :: 32 word) = of_nat j \<longleftrightarrow> i = j"
  by (metis unat_of_nat32)

lemma ApplyImages_issued_None:
  assumes "length (images (cur_state w)) = length (images this)"
    and "\<forall>i<length (images this). images (cur_state w) ! i = images this ! i"
  shows "issued (ApplyImages this) w = []"
proof -
  have "UpdateArray (images (cur_state w)) (images this) = (images this, None)"
    by (rule UpdateArray_None) (simp_all add: assms)
  then show ?thesis
    by (simp add: issued_def ApplyImages_calls)
qed

lemma ApplyImages_issued_Some:
  assumes "length (images (cur_state w)) = length (images this)" "length (images this) < 2 ^ 31"
    and "first \<le> lasti" "lasti < length (images this)"
    and "images (cur_state w) ! first \<noteq> images this ! first"
    and "images (cur_state w) ! lasti \<noteq> images this ! lasti"
    and "\<forall>i<length (images this). i < first \<or> lasti < i \<longrightarrow> images (cur_state w) ! i = images this ! i"
  shows "issued (ApplyImages this) w =
    [glBindImageTextures (of_nat first) (of_nat (lasti - first + 1))
       (take (lasti - first + 1) (drop first (images this)))]"
proof -
  have "UpdateArray (images (cur_state w)) (images this) =
      (images this, Some (of_nat first, of_nat (lasti - first + 1)))"
    by (rule UpdateArray_Some) (simp_all add: assms)
  moreover have "unat (of_nat first :: 32 word) = first"
    using assms(2,3,4) by (intro unat_of_nat32) simp
  moreover have "unat (of_nat (lasti - first + 1) :: 32 word) = lasti - first + 1"
    using assms(2,3,4) by (intro unat_of_nat32) simp
  ultimately show ?thesis
    by (simp add: issued_def ApplyImages_calls)
qed

section \<open>The texture binds of one unit\<close>

lemma filter_unit_others:
  assumes "i < 2 ^ 31" "\<forall>j\<in>set xs. j \<noteq> i \<and> j < 2 ^ 31"
  shows "filter (binds_texture_unit (of_nat i))
      (concat (map (\<lambda>j. if P j then [glBindTextureUnit (of_nat j) (t j)] else []) xs)) = []"
  using assms(2)
proof (induction xs)
  case Nil
  then show ?case by simp
next
  case (Cons j xs)
  then have "j \<noteq> i" "j < 2 ^ 31" by simp_all
  then have "(of_nat j :: 32 word) \<noteq> of_nat i"
    using assms(1) by (simp add: of_nat32_inj)
  with Cons show ?case by simp
qed

lemma filter_unit_own:
  assumes "i < n" "n < 2 ^ 31"
  shows "filter (binds_texture_unit (of_nat i))
      (concat (map (\<lambda>j. if P j then [glBindTextureUnit (of_nat j) (t j)] else []) [0..<n])) =
    (if P i then [glBindTextureUnit (of_nat i) (t i)] else [])"
proof -
  have "[0..<n] = [0..<i] @ [i..<n]"
    using upt_add_eq_append [of 0 i "n - i"] assms(1) by simp
  moreover have "[i..<n] = i # [Suc i..<n]"
    using assms(1) by (simp add: upt_conv_Cons)
  ultimately have split: "[0..<n] = [0..<i] @ i # [Suc i..<n]"
    by simp
  have i: "i < 2 ^ 31"
    using assms by simp
  have before: "filter (binds_texture_unit (of_nat i))
      (concat (map (\<lambda>j. if P j then [glBindTextureUnit (of_nat j) (t j)] else []) [0..<i])) = []"
    using assms by (intro filter_unit_others i) auto
  have after: "filter (binds_texture_unit (of_nat i))
      (concat (map (\<lambda>j. if P j then [glBindTextureUnit (of_nat j) (t j)] else []) [Suc i..<n])) = []"
    using assms by (intro filter_unit_others i) auto
  show ?thesis
    by (simp only: split map_append concat_append filter_append before after list.map concat.simps)
       simp
qed

lemma binds_unit_is_bind: "binds_texture_unit u c \<Longrightarrow> is_texture_bind c"
  by (cases c) simp_all

lemma filter_unit_of_binds:
  "filter (binds_texture_unit u) (filter is_texture_bind cs) = filter (binds_texture_unit u) cs"
  by (induction cs) (auto dest: binds_unit_is_bind)

lemma wf_UnbindTexture: "wf_state Z s \<Longrightarrow> wf_state Z (UnbindTexture h s)"
  by (simp add: wf_state_def UnbindTexture_def)

section \<open>The calls of the two blending paths\<close>

lemma TargetBlending_snd:
  "snd (TargetBlending force t c u) =
     (if Blend.enabled c \<noteq> Blend.enabled u \<or> force
      then [if Blend.enabled u then glEnablei GL_BLEND (of_nat t) else glDisablei GL_BLEND (of_nat t)]
      else []) @
     (if (src_rgb_func c, dst_rgb_func c, src_a_func c, dst_a_func c) \<noteq>
         (src_rgb_func u, dst_rgb_func u, src_a_func u, dst_a_func u)
      then [glBlendFuncSeparatei (of_nat t) (src_rgb_func u) (dst_rgb_func u) (src_a_func u) (dst_a_func u)]
      else []) @
     (if (rgb_equation c, a_equation c) \<noteq> (rgb_equation u, a_equation u)
      then [glBlendEquationSeparatei (of_nat t) (rgb_equation u) (a_equation u)]
      else [])"
  by (simp add: TargetBlending_def UpdateTie_def Enable_index_def Let_def)

lemma GlobalBlending_snd:
  "snd (GlobalBlending c u) =
     (if Blend.enabled c \<noteq> Blend.enabled u
      then [if Blend.enabled u then glEnable GL_BLEND else glDisable GL_BLEND]
      else []) @
     (if (src_rgb_func c, dst_rgb_func c, src_a_func c, dst_a_func c) \<noteq>
         (src_rgb_func u, dst_rgb_func u, src_a_func u, dst_a_func u)
      then [glBlendFuncSeparate (src_rgb_func u) (dst_rgb_func u) (src_a_func u) (dst_a_func u)]
      else []) @
     (if (rgb_equation c, a_equation c) \<noteq> (rgb_equation u, a_equation u)
      then [glBlendEquationSeparate (rgb_equation u) (a_equation u)]
      else [])"
  by (simp add: GlobalBlending_def Enable_cap_value_def UpdateValue_def Enable_cap_def Let_def)

section \<open>The binding bases\<close>

text \<open>
  C8 (as amended). The constructor of \<open>Device\<close> fills the six entries of \<open>base_bindings\<close>
  as follows, in \<open>u32\<close> arithmetic. Entry 0 is \<open>{1, 0, 0, 0}\<close>: one uniform-buffer slot is
  reserved. Entry 5 (compute) is \<open>{0, 0, 0, 0}\<close>. Each of the entries 1 to 4 is the entry
  before it plus the capacity built from the limits of the vertex, tessellation-control,
  tessellation-evaluation and geometry stage respectively; that capacity is the reported
  limit in the storage-buffer, sampler and image categories, and the reported limit minus
  the one reserved slot in the uniform-buffer category, for each of the four stages and not
  for the vertex stage only. So the uniform-buffer bases are \<open>V\<close>, \<open>V + TC - 1\<close>,
  \<open>V + TC + TE - 2\<close> and \<open>V + TC + TE + G - 3\<close>.
\<close>

theorem Device_base_bindings_layout:
  "length (Device_base_bindings drv) = 6 \<and>
   Device_base_bindings drv ! 0 =
     \<lparr>uniform_buffer = 1, shader_storage_buffer = 0, sampler = 0, image = 0\<rparr> \<and>
   Device_base_bindings drv ! 1 =
     plus_BaseBindings (Device_base_bindings drv ! 0)
       \<lparr>uniform_buffer = drv GL_MAX_VERTEX_UNIFORM_BLOCKS - 1,
        shader_storage_buffer = drv GL_MAX_VERTEX_SHADER_STORAGE_BLOCKS,
        sampler = drv GL_MAX_VERTEX_TEXTURE_IMAGE_UNITS,
        image = drv GL_MAX_VERTEX_IMAGE_UNIFORMS\<rparr> \<and>
   Device_base_bindings drv ! 2 =
     plus_BaseBindings (Device_base_bindings drv ! 1)
       \<lparr>uniform_buffer = drv GL_MAX_TESS_CONTROL_UNIFORM_BLOCKS - 1,
        shader_storage_buffer = drv GL_MAX_TESS_CONTROL_SHADER_STORAGE_BLOCKS,
        sampler = drv GL_MAX_TESS_CONTROL_TEXTURE_IMAGE_UNITS,
        image = drv GL_MAX_TESS_CONTROL_IMAGE_UNIFORMS\<rparr> \<and>
   Device_base_bindings drv ! 3 =
     plus_BaseBindings (Device_base_bindings drv ! 2)
       \<lparr>uniform_buffer = drv GL_MAX_TESS_EVALUATION_UNIFORM_BLOCKS - 1,
        shader_storage_buffer = drv GL_MAX_TESS_EVALUATION_SHADER_STORAGE_BLOCKS,
        sampler = drv GL_MAX_TESS_EVALUATION_TEXTURE_IMAGE_UNITS,
        image = drv GL_MAX_TESS_EVALUATION_IMAGE_UNIFORMS\<rparr> \<and>
   Device_base_bindings drv ! 4 =
     plus_BaseBindings (Device_base_bindings drv ! 3)
       \<lparr>uniform_buffer = drv GL_MAX_GEOMETRY_UNIFORM_BLOCKS - 1,
        shader_storage_buffer = drv GL_MAX_GEOMETRY_SHADER_STORAGE_BLOCKS,
        sampler = drv GL_MAX_GEOMETRY_TEXTURE_IMAGE_UNITS,
        image = drv GL_MAX_GEOMETRY_IMAGE_UNIFORMS\<rparr> \<and>
   Device_base_bindings drv ! 5 =
     \<lparr>uniform_buffer = 0, shader_storage_buffer = 0, sampler = 0, image = 0\<rparr> \<and>
   uniform_buffer (Device_base_bindings drv ! 1) = drv GL_MAX_VERTEX_UNIFORM_BLOCKS \<and>
   uniform_buffer (Device_base_bindings drv ! 2) =
     drv GL_MAX_VERTEX_UNIFORM_BLOCKS + drv GL_MAX_TESS_CONTROL_UNIFORM_BLOCKS - 1 \<and>
   uniform_buffer (Device_base_bindings drv ! 3) =
     drv GL_MAX_VERTEX_UNIFORM_BLOCKS + drv GL_MAX_TESS_CONTROL_UNIFORM_BLOCKS +
     drv GL_MAX_TESS_EVALUATION_UNIFORM_BLOCKS - 2 \<and>
   uniform_buffer (Device_base_bindings drv ! 4) =
     drv GL_MAX_VERTEX_UNIFORM_BLOCKS + drv GL_MAX_TESS_CONTROL_UNIFORM_BLOCKS +
     drv GL_MAX_TESS_EVALUATION_UNIFORM_BLOCKS + drv GL_MAX_GEOMETRY_UNIFORM_BLOCKS - 3"
  by (simp add: Device_base_bindings_def Let_def ReservedUniformBlocks_def plus_BaseBindings_def
      BuildBaseBindings_def GetInteger_def)

text \<open>
  C8 as stated fails. When every limit the driver reports is 14, the uniform-buffer base of
  entry 2 is 27, not the base of entry 1 (which is 14) plus a reported capacity of 14: the
  reserved slot was subtracted from the tessellation-control limit as well.
\<close>

theorem Device_base_bindings_counterexample:
  "uniform_buffer (Device_base_bindings driver14 ! 1) = 14 \<and>
   uniform_buffer (Device_base_bindings driver14 ! 2) = 27 \<and>
   uniform_buffer (Device_base_bindings driver14 ! 2) \<noteq>
     uniform_buffer (Device_base_bindings driver14 ! 1) + 14"
  by (simp add: Device_base_bindings_def Let_def ReservedUniformBlocks_def plus_BaseBindings_def
      BuildBaseBindings_def GetInteger_def driver14_def)

section \<open>The component-indexing probe\<close>

text \<open>
  C10. The array \<open>values\<close> has exactly 8 elements, so the checked access \<open>values.at(index)\<close>
  succeeds for every index below 8, and the loop of \<open>TestComponentIndexingBug\<close>, whose
  index runs from 4 to 7, never takes the out-of-range branch: for every device the probe
  returns a boolean, which says whether the device's answer differs from \<open>values\<close> at one of
  the indices 4 to 7.
\<close>

theorem TestComponentIndexingBug_in_bounds:
  "length values_array = 8 \<and>
   (\<forall>index. index < 8 \<longrightarrow> at values_array index = Inr (values_array ! unat index)) \<and>
   TestComponentIndexingBug device = Inr (map device [4, 5, 6, 7] \<noteq> drop 4 values_array)"
proof (intro conjI allI impI)
  show "length values_array = 8"
    by (simp add: values_array_def)
next
  fix index :: GLuint
  assume "index < 8"
  then have "unat index < 8"
    by (simp add: word_less_nat_alt)
  then show "at values_array index = Inr (values_array ! unat index)"
    by (simp add: at_def values_array_def)
next
  have l8: "TestComponentIndexingBug_loop device 8 = Inr False"
    by (subst TestComponentIndexingBug_loop.simps) simp
  have l7: "TestComponentIndexingBug_loop device 7 = Inr (device 7 \<noteq> 0x2378432)"
    by (subst TestComponentIndexingBug_loop.simps) (auto simp add: at_def values_array_def l8)
  have l6: "TestComponentIndexingBug_loop device 6 =
      Inr (device 6 \<noteq> 0x872753 \<or> device 7 \<noteq> 0x2378432)"
    by (subst TestComponentIndexingBug_loop.simps) (auto simp add: at_def values_array_def l7)
  have l5: "TestComponentIndexingBug_loop device 5 =
      Inr (device 5 \<noteq> 0x985482 \<or> device 6 \<noteq> 0x872753 \<or> device 7 \<noteq> 0x2378432)"
    by (subst TestComponentIndexingBug_loop.simps) (auto simp add: at_def values_array_def l6)
  have l4: "TestComponentIndexingBug_loop device 4 =
      Inr (device 4 \<noteq> 0x1236327 \<or> device 5 \<noteq> 0x985482 \<or> device 6 \<noteq> 0x872753 \<or>
           device 7 \<noteq> 0x2378432)"
    by (subst TestComponentIndexingBug_loop.simps) (auto simp add: at_def values_array_def l5)
  show "TestComponentIndexingBug device = Inr (map device [4, 5, 6, 7] \<noteq> drop 4 values_array)"
    by (auto simp add: TestComponentIndexingBug_def l4 values_array_def)
qed

theorem TestComponentIndexingBug_in_bounds_witness:
  "(4 :: GLuint) < 8 \<and> at values_array 4 = Inr 0x1236327 \<and>
   TestComponentIndexingBug device0 = Inr True"
proof -
  have lt: "(4 :: GLuint) < 8"
    by simp
  from TestComponentIndexingBug_in_bounds [of device0]
  have a: "at values_array 4 = Inr (values_array ! unat (4 :: GLuint))"
    and b: "TestComponentIndexingBug device0 = Inr (map device0 [4, 5, 6, 7] \<noteq> drop 4 values_array)"
    using lt by blast+
  from a have "at values_array 4 = Inr 0x1236327"
    by (simp add: values_array_def)
  moreover from b have "TestComponentIndexingBug device0 = Inr True"
    by (simp add: values_array_def device0_def)
  ultimately show ?thesis
    using lt by simp
qed

section \<open>Viewport emulation\<close>

text \<open>
  C6 (the code at the failing input). Viewport 0 is \<open>{0, 0, 100, 100}\<close> and its scissor is
  enabled with \<open>{10, 10, 50, 50}\<close>. \<open>EmulateViewportWithScissor\<close> takes the larger of the two
  left edges and of the two bottom edges, so it leaves the scissor \<open>{10, 10, 90, 90}\<close>; the
  union of the two rectangles is \<open>{0, 0, 100, 100}\<close>. On a state whose scissor is disabled
  (\<open>example_state\<close> with the viewport \<open>{0, 0, 1280, 720}\<close>) the scissor becomes the viewport
  rectangle, enabled.
\<close>

theorem EmulateViewportWithScissor_not_union:
  "scissor (viewports (EmulateViewportWithScissor scissored_state) ! 0) =
     \<lparr>Scissor.enabled = True, Scissor.x = 10, Scissor.y = 10, Scissor.width = 90, Scissor.height = 90\<rparr> \<and>
   spec_union_scissor (viewports scissored_state ! 0) =
     \<lparr>Scissor.enabled = True, Scissor.x = 0, Scissor.y = 0, Scissor.width = 100, Scissor.height = 100\<rparr> \<and>
   scissor (viewports (EmulateViewportWithScissor
      (example_state\<lparr>viewports := [example_viewport\<lparr>Viewport.width := 1280, Viewport.height := 720\<rparr>]\<rparr>)) ! 0) =
     \<lparr>Scissor.enabled = True, Scissor.x = 0, Scissor.y = 0, Scissor.width = 1280, Scissor.height = 720\<rparr>"
  by (simp add: EmulateViewportWithScissor_def scissored_state_def example_state_def
      example_viewport_def spec_union_scissor_def std_max_def Let_def)

section \<open>The invalidation helpers\<close>

text \<open>
  C9. Each invalidation helper changes the fields of its own category only, and there only
  the slots that hold the handle. \<open>UnbindTexture\<close> returns the state it was called on with
  the array \<open>textures\<close> replaced by an array of the same size in which a slot is 0 where it
  held the handle and unchanged elsewhere; \<open>ResetSampler\<close> does the same on \<open>samplers\<close>;
  \<open>ResetProgram\<close>, \<open>ResetPipeline\<close>, \<open>ResetFramebuffer\<close> and \<open>ResetRenderbuffer\<close> return the
  state with \<open>draw.shader_program\<close>, \<open>draw.program_pipeline\<close>, the two framebuffers of
  \<open>draw\<close>, and \<open>renderbuffer\<close> set to 0 where they held the handle. Every other field of the
  returned state is the field of the state the helper was called on.
\<close>

theorem invalidation_frame:
  "UnbindTexture h s = s\<lparr>textures := textures (UnbindTexture h s)\<rparr> \<and>
   length (textures (UnbindTexture h s)) = length (textures s) \<and>
   (\<forall>i < length (textures s).
      textures (UnbindTexture h s) ! i = (if textures s ! i = h then 0 else textures s ! i)) \<and>
   ResetSampler h s = s\<lparr>samplers := samplers (ResetSampler h s)\<rparr> \<and>
   length (samplers (ResetSampler h s)) = length (samplers s) \<and>
   (\<forall>i < length (samplers s).
      samplers (ResetSampler h s) ! i = (if samplers s ! i = h then 0 else samplers s ! i)) \<and>
   ResetProgram h s =
     s\<lparr>draw := (draw s)\<lparr>shader_program :=
          (if shader_program (draw s) = h then 0 else shader_program (draw s))\<rparr>\<rparr> \<and>
   ResetPipeline h s =
     s\<lparr>draw := (draw s)\<lparr>program_pipeline :=
          (if program_pipeline (draw s) = h then 0 else program_pipeline (draw s))\<rparr>\<rparr> \<and>
   ResetFramebuffer h s =
     s\<lparr>draw := (draw s)\<lparr>
          read_framebuffer := (if read_framebuffer (draw s) = h then 0 else read_framebuffer (draw s)),
          draw_framebuffer := (if draw_framebuffer (draw s) = h then 0 else draw_framebuffer (draw s))\<rparr>\<rparr> \<and>
   ResetRenderbuffer h s =
     s\<lparr>renderbuffer := (if renderbuffer s = h then 0 else renderbuffer s)\<rparr>"
  by (simp add: UnbindTexture_def ResetSampler_def ResetProgram_def ResetPipeline_def
      ResetFramebuffer_def ResetRenderbuffer_def Let_def)

theorem invalidation_frame_witness:
  "(1 :: nat) < length (textures (example_state\<lparr>textures := [7, 5, 7, 0]\<rparr>)) \<and>
   textures (UnbindTexture 7 (example_state\<lparr>textures := [7, 5, 7, 0]\<rparr>)) ! 1 = 5 \<and>
   textures (UnbindTexture 7 (example_state\<lparr>textures := [7, 5, 7, 0]\<rparr>)) ! 0 = 0 \<and>
   renderbuffer (UnbindTexture 7 (example_state\<lparr>textures := [7, 5, 7, 0]\<rparr>)) = 0"
proof -
  let ?s = "example_state\<lparr>textures := [7, 5, 7, 0]\<rparr>"
  have len: "(1 :: nat) < length (textures ?s)" "(0 :: nat) < length (textures ?s)"
    by simp_all
  from invalidation_frame [of 7 ?s]
  have eq: "UnbindTexture 7 ?s = ?s\<lparr>textures := textures (UnbindTexture 7 ?s)\<rparr>"
    and slots: "\<forall>i < length (textures ?s).
      textures (UnbindTexture 7 ?s) ! i = (if textures ?s ! i = 7 then 0 else textures ?s ! i)"
    by blast+
  from slots len have "textures (UnbindTexture 7 ?s) ! 1 = 5" "textures (UnbindTexture 7 ?s) ! 0 = 0"
    by simp_all
  moreover have "renderbuffer (UnbindTexture 7 ?s) = 0"
    by (subst eq) (simp add: example_state_def)
  ultimately show ?thesis
    using len by simp
qed

section \<open>Convergence of Apply\<close>

text \<open>
  C1 (as amended). After \<open>Apply\<close>, every field of the applied state \<open>cur_state\<close> other than
  the blend records of the targets from 1 on equals the field of the desired value:
  the framebuffer handles, program and pipeline (\<open>draw\<close>), the clip distances, the colour
  clamp, the multisample flags, rasterizer discard, the colour masks, the stencil state,
  textures, samplers, images, clip control, the renderbuffer and the independent-blend flag.
  Every viewport slot has the desired rectangle and scissor, and each of its two depth-range
  values either has the desired bits or compares equal to the desired float (a zero keeps
  its sign). The blend record of target 0 equals the desired one. When the desired state
  requests independent blending, all blend records equal the desired ones; when it does
  not, the records of the targets from 1 on keep the values they had in \<open>cur_state\<close> before.
\<close>

theorem Apply_convergence:
  assumes "wf_state Z this" "wf_state Z (cur_state w)"
  shows "draw (cur_state (Apply Z this w)) = draw this \<and>
    clip_distance (cur_state (Apply Z this w)) = clip_distance this \<and>
    fragment_color_clamp (cur_state (Apply Z this w)) = fragment_color_clamp this \<and>
    multisample_control (cur_state (Apply Z this w)) = multisample_control this \<and>
    rasterizer_discard (cur_state (Apply Z this w)) = rasterizer_discard this \<and>
    color_mask (cur_state (Apply Z this w)) = color_mask this \<and>
    stencil (cur_state (Apply Z this w)) = stencil this \<and>
    textures (cur_state (Apply Z this w)) = textures this \<and>
    samplers (cur_state (Apply Z this w)) = samplers this \<and>
    images (cur_state (Apply Z this w)) = images this \<and>
    clip_control (cur_state (Apply Z this w)) = clip_control this \<and>
    renderbuffer (cur_state (Apply Z this w)) = renderbuffer this \<and>
    independant_blend (cur_state (Apply Z this w)) = independant_blend this \<and>
    length (viewports (cur_state (Apply Z this w))) = NumViewports Z \<and>
    (\<forall>i<NumViewports Z.
       viewport_applied (viewports (cur_state (Apply Z this w)) ! i) (viewports this ! i)) \<and>
    blend (cur_state (Apply Z this w)) ! 0 = blend this ! 0 \<and>
    blend (cur_state (Apply Z this w)) =
      (if IndependantBlend.enabled (independant_blend this) then blend this
       else (blend (cur_state w))[0 := blend this ! 0])"
proof -
  have len: "0 < length (blend (cur_state w))"
    using assms(2) by (simp add: wf_state_def)
  show ?thesis
    using len by (simp add: Apply_cur [OF assms] ViewportSlot_applied)
qed

theorem Apply_convergence_witness:
  "wf_state example_sizes busy_state \<and> wf_state example_sizes (cur_state example_context) \<and>
   textures (cur_state (Apply example_sizes busy_state example_context)) = [0, 5, 0, 7] \<and>
   (0 :: nat) < NumViewports example_sizes \<and>
   viewport_applied (viewports (cur_state (Apply example_sizes busy_state example_context)) ! 0)
     (viewports busy_state ! 0) \<and>
   blend (cur_state (Apply example_sizes busy_state example_context)) = [example_blend, example_blend]"
proof -
  have a: "wf_state example_sizes busy_state" and b: "wf_state example_sizes (cur_state example_context)"
    by (rule wf_examples)+
  have n: "(0 :: nat) < NumViewports example_sizes"
    by (simp add: example_sizes_def)
  note c = Apply_convergence [OF a b]
  from c have "textures (cur_state (Apply example_sizes busy_state example_context)) = [0, 5, 0, 7]"
    by (simp add: busy_state_def)
  moreover from c n have "viewport_applied
      (viewports (cur_state (Apply example_sizes busy_state example_context)) ! 0) (viewports busy_state ! 0)"
    by blast
  moreover from c have "blend (cur_state (Apply example_sizes busy_state example_context)) =
      [example_blend, example_blend]"
    by (simp add: busy_state_def example_state_def)
  ultimately show ?thesis
    using a b n by blast
qed

text \<open>
  C1 as stated fails. The desired state \<open>blend1_state\<close> has independent blending off and
  blending enabled in the record of target 1; after \<open>Apply\<close> on the context whose applied
  state has it disabled, the applied record of target 1 still has it disabled.
\<close>

theorem Apply_convergence_counterexample:
  "\<not> IndependantBlend.enabled (independant_blend blend1_state) \<and>
   Blend.enabled (blend blend1_state ! 1) \<and>
   \<not> Blend.enabled (blend (cur_state (Apply example_sizes blend1_state example_context)) ! 1) \<and>
   blend (cur_state (Apply example_sizes blend1_state example_context)) ! 1 \<noteq> blend blend1_state ! 1"
  by code_simp

section \<open>Idempotence of Apply\<close>

text \<open>
  C2 (as amended). For every desired state none of whose viewport depth-range values is a
  NaN, a second \<open>Apply\<close> of the same desired value right after the first issues no driver
  call and leaves the context as it is.
\<close>

theorem Apply_idempotent:
  assumes "wf_state Z this" "wf_state Z (cur_state w)"
    and "\<forall>i<NumViewports Z. \<not> is_nan (depth_range_near (viewports this ! i)) \<and>
                          \<not> is_nan (depth_range_far (viewports this ! i))"
  shows "issued (Apply Z this) (Apply Z this w) = [] \<and>
         Apply Z this (Apply Z this w) = Apply Z this w"
proof -
  let ?w = "Apply Z this w"
  note cur = Apply_cur [OF assms(1,2)]
  have len: "0 < length (blend (cur_state w))"
    using assms(2) by (simp add: wf_state_def)
  have "Apply Z this ?w = ?w"
  proof (rule Apply_idle)
    show "wf_state Z this" by (rule assms(1))
    show "wf_state Z (cur_state ?w)" by (rule Apply_wf [OF assms(1,2)])
    show "\<And>i. i < NumViewports Z \<Longrightarrow>
      viewport_applied (viewports (cur_state ?w) ! i) (viewports this ! i) \<and>
      \<not> is_nan (depth_range_near (viewports this ! i)) \<and>
      \<not> is_nan (depth_range_far (viewports this ! i))"
      using assms(3) by (simp add: cur ViewportSlot_applied)
    show "if IndependantBlend.enabled (independant_blend this)
          then blend (cur_state ?w) = blend this
          else blend (cur_state ?w) ! 0 = blend this ! 0"
      using len by (simp add: cur)
  qed (simp_all add: cur)
  then show ?thesis
    by (simp add: issued_def)
qed

theorem Apply_idempotent_witness:
  "wf_state example_sizes busy_state \<and> wf_state example_sizes (cur_state example_context) \<and>
   (0 :: nat) < NumViewports example_sizes \<and>
   \<not> is_nan (depth_range_near (viewports busy_state ! 0)) \<and>
   \<not> is_nan (depth_range_far (viewports busy_state ! 0)) \<and>
   issued (Apply example_sizes busy_state) (Apply example_sizes busy_state example_context) = []"
proof -
  have a: "wf_state example_sizes busy_state" and b: "wf_state example_sizes (cur_state example_context)"
    by (rule wf_examples)+
  have n: "(0 :: nat) < NumViewports example_sizes"
    by (simp add: example_sizes_def)
  have f: "\<not> is_nan (depth_range_near (viewports busy_state ! 0))"
    "\<not> is_nan (depth_range_far (viewports busy_state ! 0))"
    by (simp_all add: busy_state_def example_state_def example_viewport_def is_nan_def)
  have c: "\<forall>i<NumViewports example_sizes. \<not> is_nan (depth_range_near (viewports busy_state ! i)) \<and>
      \<not> is_nan (depth_range_far (viewports busy_state ! i))"
    using f by (simp add: example_sizes_def)
  from Apply_idempotent [OF a b c] show ?thesis
    using a b n f by blast
qed

text \<open>
  C2 as stated fails. The near depth-range value of viewport 0 of \<open>nan_state\<close> is a NaN. The
  first \<open>Apply\<close> stores it and issues \<open>glDepthRangeIndexed\<close>; the float comparison of the
  stored NaN with the desired NaN says they differ, so the second \<open>Apply\<close> issues the call
  again.
\<close>

theorem Apply_idempotent_counterexample:
  "is_nan (depth_range_near (viewports nan_state ! 0)) \<and>
   issued (Apply example_sizes nan_state)
     \<lparr>cur_state = nan_state, calls = [glDepthRangeIndexed 0 0x7FC00000 0x3F800000]\<rparr> =
     [glDepthRangeIndexed 0 0x7FC00000 0x3F800000] \<and>
   issued (Apply example_sizes nan_state) (Apply example_sizes nan_state example_context) =
     [glDepthRangeIndexed 0 0x7FC00000 0x3F800000]"
proof -
  have first: "Apply example_sizes nan_state example_context =
      \<lparr>cur_state = nan_state, calls = [glDepthRangeIndexed 0 0x7FC00000 0x3F800000]\<rparr>"
    by code_simp
  have nan: "is_nan (depth_range_near (viewports nan_state ! 0))"
    by code_simp
  have second: "issued (Apply example_sizes nan_state)
     \<lparr>cur_state = nan_state, calls = [glDepthRangeIndexed 0 0x7FC00000 0x3F800000]\<rparr> =
     [glDepthRangeIndexed 0 0x7FC00000 0x3F800000]"
    by code_simp
  show ?thesis
    using nan second by (simp only: first simp_thms)
qed

section \<open>The batched image bind\<close>

text \<open>
  C3. \<open>Apply\<close> on well-formed states. If no image unit of the desired state differs from
  the applied state, \<open>Apply\<close> issues no \<open>glBindImageTextures\<close>. If the units \<open>first\<close> and
  \<open>lasti\<close> differ and no unit before \<open>first\<close> or after \<open>lasti\<close> does (for instance when only
  the units 2 and 5 differ), \<open>Apply\<close> issues exactly one \<open>glBindImageTextures\<close>, for the
  range that starts at \<open>first\<close> and has \<open>lasti - first + 1\<close> units, and the handles it passes
  are the desired array's values at the positions \<open>first\<close> to \<open>lasti\<close>, the ones in between
  included whether they changed or not.
\<close>

theorem Apply_images_range_bind:
  assumes "wf_state Z this" "wf_state Z (cur_state w)"
  shows "((\<forall>i<NumImages Z. images (cur_state w) ! i = images this ! i) \<longrightarrow>
            filter is_image_bind (issued (Apply Z this) w) = []) \<and>
         (\<forall>first lasti.
            first \<le> lasti \<and> lasti < NumImages Z \<and>
            images (cur_state w) ! first \<noteq> images this ! first \<and>
            images (cur_state w) ! lasti \<noteq> images this ! lasti \<and>
            (\<forall>i<NumImages Z. i < first \<or> lasti < i \<longrightarrow> images (cur_state w) ! i = images this ! i) \<longrightarrow>
            filter is_image_bind (issued (Apply Z this) w) =
              [glBindImageTextures (of_nat first) (of_nat (lasti - first + 1))
                 (take (lasti - first + 1) (drop first (images this)))] \<and>
            length (take (lasti - first + 1) (drop first (images this))) = lasti - first + 1 \<and>
            (\<forall>k\<le>lasti - first.
               take (lasti - first + 1) (drop first (images this)) ! k = images this ! (first + k)))"
proof -
  have len: "length (images (cur_state w)) = length (images this)" "length (images this) = NumImages Z"
    "NumImages Z < 2 ^ 31"
    using assms by (simp_all add: wf_state_def)
  note binds = Apply_image_binds [OF assms]
  show ?thesis
  proof (intro conjI allI impI)
    assume "\<forall>i<NumImages Z. images (cur_state w) ! i = images this ! i"
    then show "filter is_image_bind (issued (Apply Z this) w) = []"
      using len by (simp add: binds ApplyImages_issued_None)
  next
    fix first lasti
    assume h: "first \<le> lasti \<and> lasti < NumImages Z \<and>
            images (cur_state w) ! first \<noteq> images this ! first \<and>
            images (cur_state w) ! lasti \<noteq> images this ! lasti \<and>
            (\<forall>i<NumImages Z. i < first \<or> lasti < i \<longrightarrow> images (cur_state w) ! i = images this ! i)"
    have "issued (ApplyImages this) w =
        [glBindImageTextures (of_nat first) (of_nat (lasti - first + 1))
           (take (lasti - first + 1) (drop first (images this)))]"
      by (rule ApplyImages_issued_Some) (use h len in simp_all)
    then show "filter is_image_bind (issued (Apply Z this) w) =
        [glBindImageTextures (of_nat first) (of_nat (lasti - first + 1))
           (take (lasti - first + 1) (drop first (images this)))]"
      by (simp add: binds)
    from h have h1: "first \<le> lasti" and h2: "lasti < NumImages Z"
      by simp_all
    have "lasti - first + 1 \<le> length (drop first (images this))"
      using h1 h2 len by simp
    then show "length (take (lasti - first + 1) (drop first (images this))) = lasti - first + 1"
      by simp
    fix k
    assume "k \<le> lasti - first"
    then show "take (lasti - first + 1) (drop first (images this)) ! k = images this ! (first + k)"
      using h1 h2 len by simp
  qed
qed

theorem Apply_images_range_bind_witness:
  "wf_state example_sizes busy_state \<and> wf_state example_sizes (cur_state example_context) \<and>
   (2 :: nat) \<le> 5 \<and> 5 < NumImages example_sizes \<and>
   images (cur_state example_context) ! 2 \<noteq> images busy_state ! 2 \<and>
   images (cur_state example_context) ! 5 \<noteq> images busy_state ! 5 \<and>
   images (cur_state example_context) ! 0 = images busy_state ! 0 \<and>
   images (cur_state example_context) ! 1 = images busy_state ! 1 \<and>
   filter is_image_bind (issued (Apply example_sizes busy_state) example_context) =
     [glBindImageTextures 2 4 [11, 0, 0, 12]] \<and>
   [11, 0, 0, 12] ! 1 = images busy_state ! 3 \<and> [11, 0, 0, 12] ! 2 = images busy_state ! 4"
proof -
  have a: "wf_state example_sizes busy_state" and b: "wf_state example_sizes (cur_state example_context)"
    by (rule wf_examples)+
  have q: "\<forall>i<NumImages example_sizes. i < 2 \<or> 5 < i \<longrightarrow>
        images (cur_state example_context) ! i = images busy_state ! i"
  proof (intro allI impI)
    fix i :: nat
    assume "i < NumImages example_sizes" "i < 2 \<or> 5 < i"
    then have "i = 0 \<or> i = 1"
      by (auto simp add: example_sizes_def)
    then show "images (cur_state example_context) ! i = images busy_state ! i"
      by (auto simp add: example_context_def example_state_def busy_state_def)
  qed
  have h: "(2 :: nat) \<le> 5 \<and> 5 < NumImages example_sizes \<and>
     images (cur_state example_context) ! 2 \<noteq> images busy_state ! 2 \<and>
     images (cur_state example_context) ! 5 \<noteq> images busy_state ! 5 \<and>
     (\<forall>i<NumImages example_sizes. i < 2 \<or> 5 < i \<longrightarrow>
        images (cur_state example_context) ! i = images busy_state ! i)"
    using q by (simp add: example_sizes_def example_context_def example_state_def busy_state_def)
  from Apply_images_range_bind [OF a b] h
  have "filter is_image_bind (issued (Apply example_sizes busy_state) example_context) =
      [glBindImageTextures (of_nat 2) (of_nat (5 - 2 + 1)) (take (5 - 2 + 1) (drop 2 (images busy_state)))]"
    by blast
  then have "filter is_image_bind (issued (Apply example_sizes busy_state) example_context) =
      [glBindImageTextures 2 4 [11, 0, 0, 12]]"
    by (simp add: busy_state_def)
  moreover have "[11, 0, 0, 12] ! 1 = images busy_state ! 3 \<and> [11, 0, 0, 12] ! 2 = images busy_state ! 4"
    by (simp add: busy_state_def)
  moreover have "images (cur_state example_context) ! 0 = images busy_state ! 0"
    "images (cur_state example_context) ! 1 = images busy_state ! 1"
    by (simp_all add: example_context_def example_state_def busy_state_def)
  ultimately show ?thesis
    using a b h by blast
qed

section \<open>Texture units\<close>

text \<open>
  C5 (as amended). The skip of an unbind is not special to texture unit zero: it is made for
  every texture unit whose desired handle is zero. \<open>Apply\<close> on well-formed states stores
  every desired texture handle in \<open>cur_state\<close>, a zero included. The texture binds it
  issues are, in the order of the units, one \<open>glBindTextureUnit\<close> for each unit whose
  desired handle differs from the applied one and is not zero. So for any unit whose
  desired handle is zero (an unbind) no bind call is issued although the cached value
  becomes zero, and for every unit whose desired handle is not zero and differs from the
  applied one exactly one bind call is issued, with the unit and the desired handle.
\<close>

theorem Apply_textures_unbind_skip:
  assumes "wf_state Z this" "wf_state Z (cur_state w)"
  shows "textures (cur_state (Apply Z this w)) = textures this \<and>
    filter is_texture_bind (issued (Apply Z this) w) =
      concat (map (\<lambda>i. if textures (cur_state w) ! i \<noteq> textures this ! i \<and> textures this ! i \<noteq> 0
                        then [glBindTextureUnit (of_nat i) (textures this ! i)] else [])
        [0..<NumSamplers Z]) \<and>
    (\<forall>i<NumSamplers Z.
       filter (binds_texture_unit (of_nat i)) (issued (Apply Z this) w) =
         (if textures this ! i = 0 then []
          else if textures (cur_state w) ! i \<noteq> textures this ! i
               then [glBindTextureUnit (of_nat i) (textures this ! i)]
               else []))"
proof -
  have len: "length (textures (cur_state w)) = length (textures this)"
    "length (textures this) = NumSamplers Z" "NumSamplers Z < 2 ^ 31"
    using assms by (simp_all add: wf_state_def)
  have binds: "filter is_texture_bind (issued (Apply Z this) w) =
      concat (map (\<lambda>i. if textures (cur_state w) ! i \<noteq> textures this ! i \<and> textures this ! i \<noteq> 0
                        then [glBindTextureUnit (of_nat i) (textures this ! i)] else [])
        [0..<NumSamplers Z])"
  proof -
    have "issued (ApplyTextures this) w =
        concat (map (\<lambda>i. if textures (cur_state w) ! i \<noteq> textures this ! i \<and> textures this ! i \<noteq> 0
                          then [glBindTextureUnit (of_nat i) (textures this ! i)] else [])
          [0..<NumSamplers Z])"
      using len by (simp add: issued_def ApplyTextures_calls)
    then show ?thesis
      by (simp only: Apply_texture_binds [OF assms])
  qed
  have unit: "filter (binds_texture_unit (of_nat i)) (issued (Apply Z this) w) =
         (if textures this ! i = 0 then []
          else if textures (cur_state w) ! i \<noteq> textures this ! i
               then [glBindTextureUnit (of_nat i) (textures this ! i)]
               else [])" if "i < NumSamplers Z" for i
  proof -
    have "filter (binds_texture_unit (of_nat i)) (issued (Apply Z this) w) =
        filter (binds_texture_unit (of_nat i)) (filter is_texture_bind (issued (Apply Z this) w))"
      by (simp only: filter_unit_of_binds)
    also have "\<dots> = (if textures (cur_state w) ! i \<noteq> textures this ! i \<and> textures this ! i \<noteq> 0
                     then [glBindTextureUnit (of_nat i) (textures this ! i)] else [])"
      unfolding binds by (rule filter_unit_own [OF that len(3)])
    finally show ?thesis
      by simp
  qed
  show ?thesis
    using unit binds by (simp add: Apply_cur [OF assms])
qed

theorem Apply_textures_unbind_skip_witness:
  "wf_state example_sizes unbind_state \<and> wf_state example_sizes (cur_state bound_context) \<and>
   textures (cur_state bound_context) = [0, 5, 0, 7] \<and>
   textures (cur_state (Apply example_sizes unbind_state bound_context)) = [0, 0, 9, 7] \<and>
   filter is_texture_bind (issued (Apply example_sizes unbind_state) bound_context) =
     [glBindTextureUnit 2 9] \<and>
   (1 :: nat) < NumSamplers example_sizes \<and>
   filter (binds_texture_unit 1) (issued (Apply example_sizes unbind_state) bound_context) = [] \<and>
   (2 :: nat) < NumSamplers example_sizes \<and>
   filter (binds_texture_unit 2) (issued (Apply example_sizes unbind_state) bound_context) =
     [glBindTextureUnit 2 9]"
proof -
  have a: "wf_state example_sizes unbind_state" and b: "wf_state example_sizes (cur_state bound_context)"
    by (rule wf_examples)+
  have n: "(1 :: nat) < NumSamplers example_sizes" "(2 :: nat) < NumSamplers example_sizes"
    by (simp_all add: example_sizes_def)
  have t: "textures (cur_state bound_context) = [0, 5, 0, 7]"
    by (simp add: bound_context_def)
  note c = Apply_textures_unbind_skip [OF a b]
  from c have "textures (cur_state (Apply example_sizes unbind_state bound_context)) = [0, 0, 9, 7]"
    by (simp add: unbind_state_def)
  moreover from c have "filter is_texture_bind (issued (Apply example_sizes unbind_state) bound_context) =
      [glBindTextureUnit 2 9]"
    by (simp add: unbind_state_def example_sizes_def bound_context_def upt_conv_Cons)
  moreover from c n(1)
  have "filter (binds_texture_unit (of_nat 1)) (issued (Apply example_sizes unbind_state) bound_context) =
         (if textures unbind_state ! 1 = 0 then []
          else if textures (cur_state bound_context) ! 1 \<noteq> textures unbind_state ! 1
               then [glBindTextureUnit (of_nat 1) (textures unbind_state ! 1)]
               else [])"
    by blast
  then have "filter (binds_texture_unit 1) (issued (Apply example_sizes unbind_state) bound_context) = []"
    by (simp add: unbind_state_def)
  moreover from c n(2)
  have "filter (binds_texture_unit (of_nat 2)) (issued (Apply example_sizes unbind_state) bound_context) =
         (if textures unbind_state ! 2 = 0 then []
          else if textures (cur_state bound_context) ! 2 \<noteq> textures unbind_state ! 2
               then [glBindTextureUnit (of_nat 2) (textures unbind_state ! 2)]
               else [])"
    by blast
  then have "filter (binds_texture_unit 2) (issued (Apply example_sizes unbind_state) bound_context) =
      [glBindTextureUnit 2 9]"
    by (simp add: unbind_state_def bound_context_def)
  ultimately show ?thesis
    using a b n t by blast
qed

text \<open>
  C5 as stated fails. The applied state has the handle 5 at texture unit 1, which is not
  unit zero, and the desired state \<open>unbind_state\<close> has zero there: the desired value of the
  unit differs, yet \<open>Apply\<close> issues no bind call for unit 1. Its only texture bind is the one
  of unit 2.
\<close>

theorem Apply_textures_unbind_skip_counterexample:
  "textures (cur_state bound_context) ! 1 = 5 \<and> textures unbind_state ! 1 = 0 \<and>
   textures (cur_state bound_context) ! 1 \<noteq> textures unbind_state ! 1 \<and>
   issued (Apply example_sizes unbind_state) bound_context = [glBindTextureUnit 2 9] \<and>
   filter (binds_texture_unit 1) (issued (Apply example_sizes unbind_state) bound_context) = [] \<and>
   textures (cur_state (Apply example_sizes unbind_state bound_context)) ! 1 = 0"
  by code_simp

section \<open>Invalidation and the reuse of a handle\<close>

text \<open>
  C4 (as amended). For every handle, zero included, each invalidation helper returns the
  state it was called on with every occurrence of the handle in its own field replaced by
  zero: \<open>UnbindTexture\<close> in the array \<open>textures\<close>, \<open>ResetSampler\<close> in the array \<open>samplers\<close>,
  \<open>ResetProgram\<close> in \<open>draw.shader_program\<close>, \<open>ResetPipeline\<close> in \<open>draw.program_pipeline\<close>,
  \<open>ResetFramebuffer\<close> in the two framebuffers of \<open>draw\<close>, and \<open>ResetRenderbuffer\<close> in
  \<open>renderbuffer\<close>. If a state has the texture unit \<open>u\<close> (for instance 3) bound to a handle
  \<open>h\<close> other than zero, then after \<open>UnbindTexture\<close> the unit is zero; once the scrubbed
  state has been applied, the applied state has zero at that unit too, and a following
  \<open>Apply\<close> of a state that binds the same handle value at the unit issues exactly one bind
  call for it, \<open>glBindTextureUnit(u, h)\<close>.
\<close>

theorem UnbindTexture_then_rebind:
  "UnbindTexture h s = s\<lparr>textures := map (\<lambda>t. if t = h then 0 else t) (textures s)\<rparr> \<and>
   ResetSampler h s = s\<lparr>samplers := map (\<lambda>t. if t = h then 0 else t) (samplers s)\<rparr> \<and>
   ResetProgram h s =
     s\<lparr>draw := (draw s)\<lparr>shader_program :=
          (if shader_program (draw s) = h then 0 else shader_program (draw s))\<rparr>\<rparr> \<and>
   ResetPipeline h s =
     s\<lparr>draw := (draw s)\<lparr>program_pipeline :=
          (if program_pipeline (draw s) = h then 0 else program_pipeline (draw s))\<rparr>\<rparr> \<and>
   ResetFramebuffer h s =
     s\<lparr>draw := (draw s)\<lparr>
          read_framebuffer := (if read_framebuffer (draw s) = h then 0 else read_framebuffer (draw s)),
          draw_framebuffer := (if draw_framebuffer (draw s) = h then 0 else draw_framebuffer (draw s))\<rparr>\<rparr> \<and>
   ResetRenderbuffer h s =
     s\<lparr>renderbuffer := (if renderbuffer s = h then 0 else renderbuffer s)\<rparr> \<and>
   (wf_state Z s \<and> wf_state Z (cur_state w) \<and> wf_state Z this \<and>
    u < NumSamplers Z \<and> textures s ! u = h \<and> h \<noteq> 0 \<and> textures this ! u = h \<longrightarrow>
      textures (UnbindTexture h s) ! u = 0 \<and>
      textures (cur_state (Apply Z (UnbindTexture h s) w)) ! u = 0 \<and>
      filter (binds_texture_unit (of_nat u)) (issued (Apply Z this) (Apply Z (UnbindTexture h s) w)) =
        [glBindTextureUnit (of_nat u) h])"
proof -
  have scrubs:
    "UnbindTexture h s = s\<lparr>textures := map (\<lambda>t. if t = h then 0 else t) (textures s)\<rparr>"
    "ResetSampler h s = s\<lparr>samplers := map (\<lambda>t. if t = h then 0 else t) (samplers s)\<rparr>"
    "ResetProgram h s =
       s\<lparr>draw := (draw s)\<lparr>shader_program :=
            (if shader_program (draw s) = h then 0 else shader_program (draw s))\<rparr>\<rparr>"
    "ResetPipeline h s =
       s\<lparr>draw := (draw s)\<lparr>program_pipeline :=
            (if program_pipeline (draw s) = h then 0 else program_pipeline (draw s))\<rparr>\<rparr>"
    "ResetFramebuffer h s =
       s\<lparr>draw := (draw s)\<lparr>
            read_framebuffer := (if read_framebuffer (draw s) = h then 0 else read_framebuffer (draw s)),
            draw_framebuffer := (if draw_framebuffer (draw s) = h then 0 else draw_framebuffer (draw s))\<rparr>\<rparr>"
    "ResetRenderbuffer h s =
       s\<lparr>renderbuffer := (if renderbuffer s = h then 0 else renderbuffer s)\<rparr>"
    by (simp_all add: UnbindTexture_def ResetSampler_def ResetProgram_def ResetPipeline_def
        ResetFramebuffer_def ResetRenderbuffer_def Let_def)
  have rebind: "textures (UnbindTexture h s) ! u = 0 \<and>
      textures (cur_state (Apply Z (UnbindTexture h s) w)) ! u = 0 \<and>
      filter (binds_texture_unit (of_nat u)) (issued (Apply Z this) (Apply Z (UnbindTexture h s) w)) =
        [glBindTextureUnit (of_nat u) h]"
    if hyp: "wf_state Z s \<and> wf_state Z (cur_state w) \<and> wf_state Z this \<and>
      u < NumSamplers Z \<and> textures s ! u = h \<and> h \<noteq> 0 \<and> textures this ! u = h"
  proof -
    from hyp have wf1: "wf_state Z s" and wf2: "wf_state Z (cur_state w)" and wf3: "wf_state Z this"
      and u: "u < NumSamplers Z" and su: "textures s ! u = h" and h0: "h \<noteq> 0"
      and tu: "textures this ! u = h"
      by simp_all
    let ?s = "UnbindTexture h s"
    let ?w = "Apply Z ?s w"
    have wfs: "wf_state Z ?s"
      by (rule wf_UnbindTexture [OF wf1])
    have wfw: "wf_state Z (cur_state ?w)"
      by (rule Apply_wf [OF wfs wf2])
    have len: "length (textures s) = NumSamplers Z"
      using wf1 by (simp add: wf_state_def)
    have scrub: "textures ?s = map (\<lambda>t. if t = h then 0 else t) (textures s)"
      by (simp add: UnbindTexture_def)
    have zero: "textures ?s ! u = 0"
      using u su len by (simp add: scrub)
    have cur: "textures (cur_state ?w) = textures ?s"
      by (simp add: Apply_cur [OF wfs wf2])
    have bind: "filter (binds_texture_unit (of_nat u)) (issued (Apply Z this) ?w) =
        [glBindTextureUnit (of_nat u) h]"
    proof -
      have "filter (binds_texture_unit (of_nat u)) (issued (Apply Z this) ?w) =
          filter (binds_texture_unit (of_nat u)) (filter is_texture_bind (issued (Apply Z this) ?w))"
        by (simp only: filter_unit_of_binds)
      also have "filter is_texture_bind (issued (Apply Z this) ?w) = issued (ApplyTextures this) ?w"
        by (rule Apply_texture_binds [OF wf3 wfw])
      also have "issued (ApplyTextures this) ?w =
          concat (map (\<lambda>i. if textures (cur_state ?w) ! i \<noteq> textures this ! i \<and> textures this ! i \<noteq> 0
                            then [glBindTextureUnit (of_nat i) (textures this ! i)] else [])
            [0..<NumSamplers Z])"
        using wf3 wfw by (simp add: issued_def ApplyTextures_calls wf_state_def)
      also have "filter (binds_texture_unit (of_nat u)) \<dots> =
          (if textures (cur_state ?w) ! u \<noteq> textures this ! u \<and> textures this ! u \<noteq> 0
           then [glBindTextureUnit (of_nat u) (textures this ! u)] else [])"
        using wf3 by (intro filter_unit_own u) (simp add: wf_state_def)
      finally show ?thesis
        using h0 tu by (simp add: cur zero)
    qed
    show ?thesis
      using zero bind by (simp add: cur)
  qed
  show ?thesis
    using scrubs rebind by blast
qed

theorem UnbindTexture_then_rebind_witness:
  "wf_state example_sizes handle_state \<and> wf_state example_sizes (cur_state handle_context) \<and>
   (3 :: nat) < NumSamplers example_sizes \<and> textures handle_state ! 3 = 7 \<and> (7 :: GLuint) \<noteq> 0 \<and>
   textures (cur_state handle_context) ! 3 = 7 \<and>
   textures (UnbindTexture 7 handle_state) = [0, 0, 0, 0] \<and>
   textures (cur_state (Apply example_sizes (UnbindTexture 7 handle_state) handle_context)) ! 3 = 0 \<and>
   filter (binds_texture_unit 3)
     (issued (Apply example_sizes handle_state)
        (Apply example_sizes (UnbindTexture 7 handle_state) handle_context)) =
     [glBindTextureUnit 3 7]"
proof -
  have a: "wf_state example_sizes handle_state" and b: "wf_state example_sizes (cur_state handle_context)"
    by (rule wf_examples)+
  have n: "(3 :: nat) < NumSamplers example_sizes"
    by (simp add: example_sizes_def)
  have t: "textures handle_state ! 3 = 7"
    by (simp add: handle_state_def)
  have c: "textures (cur_state handle_context) ! 3 = 7"
    by (simp add: handle_context_def handle_state_def)
  have z: "(7 :: GLuint) \<noteq> 0"
    by simp
  note th = UnbindTexture_then_rebind [of 7 handle_state example_sizes handle_context handle_state 3]
  from th have "textures (UnbindTexture 7 handle_state) = [0, 0, 0, 0]"
    by (simp add: handle_state_def)
  moreover from th a b n t z
  have "textures (cur_state (Apply example_sizes (UnbindTexture 7 handle_state) handle_context)) ! 3 = 0"
    and "filter (binds_texture_unit (of_nat 3))
     (issued (Apply example_sizes handle_state)
        (Apply example_sizes (UnbindTexture 7 handle_state) handle_context)) =
     [glBindTextureUnit (of_nat 3) 7]"
    by blast+
  ultimately show ?thesis
    using a b n t z c by simp
qed

text \<open>
  C4 as stated fails. \<open>handle_state\<close> binds the handle 7 at unit 3 and is applied.
  \<open>UnbindTexture\<close> then scrubs the handle from the desired state, not from \<open>cur_state\<close>,
  which keeps 7 at unit 3. When the same handle value is bound at unit 3 again
  (\<open>rebound_state\<close>) and applied, the unit compares equal and \<open>Apply\<close> issues no call.
\<close>

theorem UnbindTexture_then_rebind_counterexample:
  "textures handle_state ! 3 = 7 \<and>
   cur_state (Apply example_sizes handle_state example_context) = handle_state \<and>
   textures (UnbindTexture 7 handle_state) ! 3 = 0 \<and>
   textures rebound_state ! 3 = 7 \<and>
   issued (Apply example_sizes rebound_state)
     \<lparr>cur_state = handle_state, calls = [glBindTextureUnit 3 7]\<rparr> = [] \<and>
   issued (Apply example_sizes rebound_state) (Apply example_sizes handle_state example_context) = []"
proof -
  have first: "Apply example_sizes handle_state example_context =
      \<lparr>cur_state = handle_state, calls = [glBindTextureUnit 3 7]\<rparr>"
    by code_simp
  have a: "textures handle_state ! 3 = 7" "textures (UnbindTexture 7 handle_state) ! 3 = 0"
    "textures rebound_state ! 3 = 7"
    by code_simp+
  have second: "issued (Apply example_sizes rebound_state)
     \<lparr>cur_state = handle_state, calls = [glBindTextureUnit 3 7]\<rparr> = []"
    by code_simp
  show ?thesis
    using a second by (simp only: first simp_thms gl_context.simps)
qed

section \<open>Blending\<close>

text \<open>
  C7 (as amended). The calls that \<open>Apply\<close> issues are those of its steps in the reference
  order, the blending step after the stencil step and before the textures. When the
  desired state requests independent blending, the blending step goes through all render
  targets: for each target it issues the indexed enable or disable call when the enable
  flag differs or when independent blending was off in the applied state (the flag just
  switched from false to true), so on that transition the enable or disable call of every
  target, target 0 included, is issued again even if no blend field differs; the blend
  function call and the blend equation call of a target are issued only when the target's
  functions, respectively equations, differ, on the transition as well. When independent
  blending is not requested, only target 0 is compared and its enable flag, functions and
  equations are applied through the calls without an index, each only on change.
\<close>

theorem ApplyBlending_transition:
  assumes "wf_state Z this" "wf_state Z (cur_state w)"
  shows "issued (Apply Z this) w =
      (issued (ApplyFramebufferState this) w @ issued (ApplyShaderProgram this) w @
       issued (ApplyProgramPipeline this) w @ issued (ApplyClipDistances this) w @
       issued (ApplyFragmentColorClamp this) w @ issued (ApplyMultisample this) w @
       issued (ApplyRasterizerDiscard this) w @ issued (ApplyColorMask Z this) w @
       issued (ApplyViewport Z this) w @ issued (ApplyStencilTest this) w) @
      issued (ApplyBlending Z this) w @
      (issued (ApplyTextures this) w @ issued (ApplySamplers this) w @ issued (ApplyImages this) w @
       issued (ApplyClipControl this) w @ issued (ApplyRenderBuffer this) w) \<and>
    issued (ApplyBlending Z this) w =
      (if IndependantBlend.enabled (independant_blend this)
       then concat (map (\<lambda>t.
              (if Blend.enabled (blend (cur_state w) ! t) \<noteq> Blend.enabled (blend this ! t) \<or>
                  \<not> IndependantBlend.enabled (independant_blend (cur_state w))
               then [if Blend.enabled (blend this ! t) then glEnablei GL_BLEND (of_nat t)
                     else glDisablei GL_BLEND (of_nat t)]
               else []) @
              (if (src_rgb_func (blend (cur_state w) ! t), dst_rgb_func (blend (cur_state w) ! t),
                   src_a_func (blend (cur_state w) ! t), dst_a_func (blend (cur_state w) ! t)) \<noteq>
                  (src_rgb_func (blend this ! t), dst_rgb_func (blend this ! t),
                   src_a_func (blend this ! t), dst_a_func (blend this ! t))
               then [glBlendFuncSeparatei (of_nat t) (src_rgb_func (blend this ! t))
                       (dst_rgb_func (blend this ! t)) (src_a_func (blend this ! t))
                       (dst_a_func (blend this ! t))]
               else []) @
              (if (rgb_equation (blend (cur_state w) ! t), a_equation (blend (cur_state w) ! t)) \<noteq>
                  (rgb_equation (blend this ! t), a_equation (blend this ! t))
               then [glBlendEquationSeparatei (of_nat t) (rgb_equation (blend this ! t))
                       (a_equation (blend this ! t))]
               else []))
              [0..<NumRenderTargets Z])
       else (if Blend.enabled (blend (cur_state w) ! 0) \<noteq> Blend.enabled (blend this ! 0)
             then [if Blend.enabled (blend this ! 0) then glEnable GL_BLEND else glDisable GL_BLEND]
             else []) @
            (if (src_rgb_func (blend (cur_state w) ! 0), dst_rgb_func (blend (cur_state w) ! 0),
                 src_a_func (blend (cur_state w) ! 0), dst_a_func (blend (cur_state w) ! 0)) \<noteq>
                (src_rgb_func (blend this ! 0), dst_rgb_func (blend this ! 0),
                 src_a_func (blend this ! 0), dst_a_func (blend this ! 0))
             then [glBlendFuncSeparate (src_rgb_func (blend this ! 0)) (dst_rgb_func (blend this ! 0))
                     (src_a_func (blend this ! 0)) (dst_a_func (blend this ! 0))]
             else []) @
            (if (rgb_equation (blend (cur_state w) ! 0), a_equation (blend (cur_state w) ! 0)) \<noteq>
                (rgb_equation (blend this ! 0), a_equation (blend this ! 0))
             then [glBlendEquationSeparate (rgb_equation (blend this ! 0)) (a_equation (blend this ! 0))]
             else []))"
proof -
  have len: "length (blend (cur_state w)) = NumRenderTargets Z"
    using assms(2) by (simp add: wf_state_def)
  have all: "issued (Apply Z this) w =
      (issued (ApplyFramebufferState this) w @ issued (ApplyShaderProgram this) w @
       issued (ApplyProgramPipeline this) w @ issued (ApplyClipDistances this) w @
       issued (ApplyFragmentColorClamp this) w @ issued (ApplyMultisample this) w @
       issued (ApplyRasterizerDiscard this) w @ issued (ApplyColorMask Z this) w @
       issued (ApplyViewport Z this) w @ issued (ApplyStencilTest this) w) @
      issued (ApplyBlending Z this) w @
      (issued (ApplyTextures this) w @ issued (ApplySamplers this) w @ issued (ApplyImages this) w @
       issued (ApplyClipControl this) w @ issued (ApplyRenderBuffer this) w)"
    by (simp only: issued_append [of "Apply Z this" w, OF Apply_calls [OF assms]] append_assoc)
  have blending: "issued (ApplyBlending Z this) w =
      (if IndependantBlend.enabled (independant_blend this)
       then concat (map (\<lambda>t. snd (TargetBlending
                (IndependantBlend.enabled (independant_blend this) \<noteq>
                 IndependantBlend.enabled (independant_blend (cur_state w)))
                t (blend (cur_state w) ! t) (blend this ! t)))
             [0..<NumRenderTargets Z])
       else snd (GlobalBlending (blend (cur_state w) ! 0) (blend this ! 0)))"
    by (simp add: issued_def ApplyBlending_calls [OF len])
  show ?thesis
  proof (cases "IndependantBlend.enabled (independant_blend this)")
    case True
    then show ?thesis
      by (simp only: all blending TargetBlending_snd if_True simp_thms)
  next
    case False
    then show ?thesis
      by (simp only: all blending GlobalBlending_snd if_False simp_thms)
  qed
qed

theorem ApplyBlending_transition_witness:
  "wf_state example_sizes independent_state \<and> wf_state example_sizes (cur_state example_context) \<and>
   issued (ApplyBlending example_sizes independent_state) example_context =
     [glDisablei GL_BLEND 0, glDisablei GL_BLEND 1]"
proof -
  have a: "wf_state example_sizes independent_state"
    and b: "wf_state example_sizes (cur_state example_context)"
    by (rule wf_examples)+
  from ApplyBlending_transition [OF a b]
  have "issued (ApplyBlending example_sizes independent_state) example_context =
     [glDisablei GL_BLEND 0, glDisablei GL_BLEND 1]"
    by (simp add: independent_state_def example_context_def example_state_def example_sizes_def
        example_blend_def upt_conv_Cons)
  then show ?thesis
    using a b by simp
qed

text \<open>
  C7 as stated fails. \<open>independent_state\<close> requests independent blending, the applied state
  has it off, and the blend records are the same. \<open>Apply\<close> issues the two disable calls and
  nothing else: the blend function and blend equation calls of target 0 are not issued
  again.
\<close>

theorem ApplyBlending_transition_counterexample:
  "IndependantBlend.enabled (independant_blend independent_state) \<and>
   \<not> IndependantBlend.enabled (independant_blend (cur_state example_context)) \<and>
   blend independent_state ! 0 = blend (cur_state example_context) ! 0 \<and>
   issued (Apply example_sizes independent_state) example_context =
     [glDisablei GL_BLEND 0, glDisablei GL_BLEND 1] \<and>
   glBlendFuncSeparatei 0 1 0 1 0 \<notin> set (issued (Apply example_sizes independent_state) example_context) \<and>
   glBlendEquationSeparatei 0 0x8006 0x8006 \<notin>
     set (issued (Apply example_sizes independent_state) example_context)"
  by code_simp

end
